theory Spec2Isabelle
  imports Main
begin

section \<open>Data model of the signalling client (main.go)\<close>

text \<open>
  The client talks to three collaborators that are not part of the repository: the
  websocket connection to the relay, the JSON decoder and the WebRTC library. Their
  answers are taken as parameters (the record \<open>env\<close> below); what the client itself
  does with those answers is translated from \<^verbatim>\<open>main.go\<close> function by function.
\<close>

subsection \<open>Messages, descriptions, errors\<close>

text \<open>\<^verbatim>\<open>type Message struct { Type string; Payload json.RawMessage }\<close>; the raw payload is
  a byte string, empty for a nil payload.\<close>

record Message =
  Type :: string
  Payload :: string

text \<open>\<^verbatim>\<open>webrtc.SDPType\<close> and \<^verbatim>\<open>webrtc.SessionDescription\<close> (fields \<^verbatim>\<open>Type\<close>, \<^verbatim>\<open>SDP\<close>);
  the zero value of the type is the unknown one.\<close>

datatype SDPType = SDPTypeUnknown | SDPTypeOffer | SDPTypePranswer | SDPTypeAnswer | SDPTypeRollback

record SessionDescription =
  sdType :: SDPType
  SDP :: string

text \<open>\<^verbatim>\<open>webrtc.ICECandidateInit\<close>.\<close>

record ICECandidateInit =
  Candidate :: string
  SDPMid :: "string option"
  SDPMLineIndex :: "nat option"
  UsernameFragment :: "string option"

text \<open>A Go \<^verbatim>\<open>error\<close> value: a websocket close error with its code and text, or any other
  error with its text.\<close>

datatype error = CloseError nat string | OtherError string

definition CloseGoingAway :: nat where
  "CloseGoingAway = 1001"

definition CloseAbnormalClosure :: nat where
  "CloseAbnormalClosure = 1006"

text \<open>\<^verbatim>\<open>websocket.IsUnexpectedCloseError(err, codes...)\<close>: a close error whose code is
  not among the expected ones.\<close>

fun IsUnexpectedCloseError :: "error \<Rightarrow> nat list \<Rightarrow> bool" where
  "IsUnexpectedCloseError (CloseError code txt) expected = (code \<notin> set expected)"
| "IsUnexpectedCloseError (OtherError txt) expected = False"

subsection \<open>Objects of the WebRTC library\<close>

text \<open>
  A peer connection and a data channel are objects on a heap, named by their address
  (the index in the heap list), as the Go code holds pointers to them. Of an object the
  model keeps what this program does to it: the method calls made on a connection, in
  order, the texts sent on a channel, and the handlers registered. A handler is the
  closure the source registers, kept as the variables it captures.
\<close>

datatype pc_call =
    Call_CreateDataChannel string
  | Call_CreateOffer
  | Call_CreateAnswer
  | Call_SetLocalDescription SessionDescription
  | Call_SetRemoteDescription SessionDescription
  | Call_AddICECandidate ICECandidateInit

record PeerConnection =
  calls :: "pc_call list"
  onDataChannel :: "string option"

record DataChannel =
  dcLabel :: string
  onOpen :: "(nat \<times> string) option"
  onMessage :: "string option"
  sentText :: "string list"

subsection \<open>The client and the world around it\<close>

text \<open>\<^verbatim>\<open>type Client struct\<close>: the local identifier and the two maps from peer identifier
  to connection and to open data channel. The field \<^verbatim>\<open>conn\<close> is the relay connection,
  whose outgoing side is \<open>written\<close> below.\<close>

record Client =
  peerID :: string
  peerConns :: "string \<rightharpoonup> nat"
  dataChannels :: "string \<rightharpoonup> nat"

text \<open>What \<^verbatim>\<open>log.Println\<close>/\<^verbatim>\<open>log.Printf\<close> and \<^verbatim>\<open>fmt.Print*\<close> write, one constructor per
  call site, carrying the values formatted into the line.\<close>

datatype log_line =
    Log_SendingRegister
  | Log_RegisterError error
  | Log_RegisterSent
  | Log_UnexpectedClose error
  | Log_ReadError error
  | Log_ReceivedType string
  | Log_FullMessage Message
  | Log_UnmarshalRegisteredError error
  | Log_EmptyPeerID
  | Log_Registered string
  | Log_CreatePeerConnectionError error
  | Log_SetRemoteDescriptionError error
  | Log_CreateAnswerError error
  | Log_SetLocalDescriptionError error

datatype out_line =
    Print_Banner
  | Print_Commands
  | Print_Prompt
  | Print_UsageConnect
  | Print_UsageSend
  | Print_ConnectError error
  | Print_UnknownCommand
  | Print_MessageSent string string
  | Print_NoOpenDataChannel string
  | Print_DataChannelOpened string
  | Print_ReceivedMessage string string
  | Print_Registered string

text \<open>What a call of \<^verbatim>\<open>conn.WriteJSON\<close> puts on the relay connection: the JSON text of
  an envelope, or, when the envelope cannot be marshalled, a frame with nothing in it.\<close>

datatype frame = Envelope Message | Empty_frame

text \<open>The whole state: the client, the two heaps, the frames sent to the relay (in
  order), standard output and the log.\<close>

record world =
  client :: Client
  pcs :: "PeerConnection list"
  dcs :: "DataChannel list"
  written :: "frame list"
  stdout :: "out_line list"
  logs :: "log_line list"

text \<open>
  The collaborators' answers. Each may depend on the state at the moment of the call and
  on the call's arguments. \<open>Unmarshal_*\<close> is \<^verbatim>\<open>json.Unmarshal\<close> into the zero-valued
  payload struct of the given envelope kind: the error it returns and the struct's
  fields afterwards (which may be partly filled even when an error is returned).
  \<open>Marshal_result\<close> is the error of \<^verbatim>\<open>json.Marshal\<close> on an envelope, if any: the payload
  is a \<^verbatim>\<open>json.RawMessage\<close>, which is marshalled as it is and must itself be JSON text
  (a nil payload is marshalled as \<^verbatim>\<open>null\<close>). \<open>WriteJSON_result\<close> is the error of the
  connection itself, if it cannot take a frame.
\<close>

record env =
  Dial_result :: "string \<Rightarrow> error option"
  WriteJSON_result :: "world \<Rightarrow> Message \<Rightarrow> error option"
  Marshal_result :: "Message \<Rightarrow> error option"
  Unmarshal_registered :: "string \<Rightarrow> error option \<times> string"
  Unmarshal_offer :: "string \<Rightarrow> error option \<times> SessionDescription \<times> string"
  Unmarshal_answer :: "string \<Rightarrow> error option \<times> SessionDescription \<times> string"
  Unmarshal_candidate :: "string \<Rightarrow> error option \<times> ICECandidateInit \<times> string"
  NewPeerConnection_result :: "world \<Rightarrow> error option"
  CreateDataChannel_result :: "world \<Rightarrow> nat \<Rightarrow> string \<Rightarrow> error option"
  CreateOffer_result :: "world \<Rightarrow> nat \<Rightarrow> error + SessionDescription"
  CreateAnswer_result :: "world \<Rightarrow> nat \<Rightarrow> error + SessionDescription"
  SetLocalDescription_result :: "world \<Rightarrow> nat \<Rightarrow> SessionDescription \<Rightarrow> error option"
  SetRemoteDescription_result :: "world \<Rightarrow> nat \<Rightarrow> SessionDescription \<Rightarrow> error option"

section \<open>Calls on the collaborators\<close>

definition log_line :: "log_line \<Rightarrow> world \<Rightarrow> world" where
  "log_line l w = w\<lparr>logs := logs w @ [l]\<rparr>"

definition print_line :: "out_line \<Rightarrow> world \<Rightarrow> world" where
  "print_line p w = w\<lparr>stdout := stdout w @ [p]\<rparr>"

text \<open>\<^verbatim>\<open>c.conn.WriteJSON(msg)\<close>. When the connection cannot take a frame nothing is sent
  and its error is returned. Otherwise the envelope is marshalled into the frame: if
  that fails nothing is put into the frame, which is sent empty, and the marshalling
  error is returned; if it succeeds the envelope is sent.\<close>

definition WriteJSON :: "env \<Rightarrow> Message \<Rightarrow> world \<Rightarrow> world \<times> error option" where
  "WriteJSON env msg w =
     (case WriteJSON_result env w msg of
        Some e \<Rightarrow> (w, Some e)
      | None \<Rightarrow>
          (case Marshal_result env msg of
             Some e \<Rightarrow> (w\<lparr>written := written w @ [Empty_frame]\<rparr>, Some e)
           | None \<Rightarrow> (w\<lparr>written := written w @ [Envelope msg]\<rparr>, None)))"

text \<open>A method call on the connection at address \<open>pc\<close> is added to that object's calls.\<close>

definition pc_called :: "nat \<Rightarrow> pc_call \<Rightarrow> world \<Rightarrow> world" where
  "pc_called pc c w = w\<lparr>pcs := (pcs w)[pc := (pcs w ! pc)\<lparr>calls := calls (pcs w ! pc) @ [c]\<rparr>]\<rparr>"

text \<open>\<^verbatim>\<open>webrtc.NewPeerConnection(webrtc.Configuration{})\<close>: a fresh connection object, or
  an error.\<close>

definition NewPeerConnection :: "env \<Rightarrow> world \<Rightarrow> world \<times> (error + nat)" where
  "NewPeerConnection env w =
     (case NewPeerConnection_result env w of
        Some e \<Rightarrow> (w, Inl e)
      | None \<Rightarrow> (w\<lparr>pcs := pcs w @ [\<lparr>calls = [], onDataChannel = None\<rparr>]\<rparr>, Inr (length (pcs w))))"

text \<open>\<^verbatim>\<open>peerConnection.CreateDataChannel(label, nil)\<close>: a fresh channel object, or an
  error.\<close>

definition CreateDataChannel :: "env \<Rightarrow> nat \<Rightarrow> string \<Rightarrow> world \<Rightarrow> world \<times> (error + nat)" where
  "CreateDataChannel env pc label w =
     (let w1 = pc_called pc (Call_CreateDataChannel label) w in
      case CreateDataChannel_result env w pc label of
        Some e \<Rightarrow> (w1, Inl e)
      | None \<Rightarrow>
          (w1\<lparr>dcs := dcs w1 @ [\<lparr>dcLabel = label, onOpen = None, onMessage = None, sentText = []\<rparr>]\<rparr>,
           Inr (length (dcs w1))))"

definition CreateOffer :: "env \<Rightarrow> nat \<Rightarrow> world \<Rightarrow> world \<times> (error + SessionDescription)" where
  "CreateOffer env pc w = (pc_called pc Call_CreateOffer w, CreateOffer_result env w pc)"

definition CreateAnswer :: "env \<Rightarrow> nat \<Rightarrow> world \<Rightarrow> world \<times> (error + SessionDescription)" where
  "CreateAnswer env pc w = (pc_called pc Call_CreateAnswer w, CreateAnswer_result env w pc)"

definition SetLocalDescription :: "env \<Rightarrow> nat \<Rightarrow> SessionDescription \<Rightarrow> world \<Rightarrow> world \<times> error option" where
  "SetLocalDescription env pc desc w =
     (pc_called pc (Call_SetLocalDescription desc) w, SetLocalDescription_result env w pc desc)"

definition SetRemoteDescription :: "env \<Rightarrow> nat \<Rightarrow> SessionDescription \<Rightarrow> world \<Rightarrow> world \<times> error option" where
  "SetRemoteDescription env pc desc w =
     (pc_called pc (Call_SetRemoteDescription desc) w, SetRemoteDescription_result env w pc desc)"

text \<open>\<^verbatim>\<open>peerConnection.AddICECandidate(candidate)\<close>; the source never reads its error.\<close>

definition AddICECandidate :: "nat \<Rightarrow> ICECandidateInit \<Rightarrow> world \<Rightarrow> world" where
  "AddICECandidate pc cand w = pc_called pc (Call_AddICECandidate cand) w"

text \<open>\<^verbatim>\<open>peerConnection.OnDataChannel(func(dataChannel) { c.setupDataChannel(dataChannel,
  sourcePeerID) })\<close>: the handler is kept as the \<^verbatim>\<open>sourcePeerID\<close> it captures.\<close>

definition OnDataChannel :: "nat \<Rightarrow> string \<Rightarrow> world \<Rightarrow> world" where
  "OnDataChannel pc src w = w\<lparr>pcs := (pcs w)[pc := (pcs w ! pc)\<lparr>onDataChannel := Some src\<rparr>]\<rparr>"

text \<open>\<^verbatim>\<open>dataChannel.SendText(message)\<close>; the source never reads its error.\<close>

definition SendText :: "nat \<Rightarrow> string \<Rightarrow> world \<Rightarrow> world" where
  "SendText dc message w =
     w\<lparr>dcs := (dcs w)[dc := (dcs w ! dc)\<lparr>sentText := sentText (dcs w ! dc) @ [message]\<rparr>]\<rparr>"

section \<open>The client (main.go)\<close>

text \<open>\<^verbatim>\<open>NewClient\<close>: dial the relay; on success a client with no identifier and two empty
  maps.\<close>

definition NewClient :: "env \<Rightarrow> string \<Rightarrow> error + Client" where
  "NewClient env url =
     (case Dial_result env url of
        Some e \<Rightarrow> Inl e
      | None \<Rightarrow> Inr \<lparr>peerID = [], peerConns = Map.empty, dataChannels = Map.empty\<rparr>)"

text \<open>The state in which a new client starts: nothing allocated, written or printed.\<close>

definition start_world :: "Client \<Rightarrow> world" where
  "start_world c = \<lparr>client = c, pcs = [], dcs = [], written = [], stdout = [], logs = []\<rparr>"

text \<open>\<^verbatim>\<open>Register\<close>.\<close>

definition Register :: "env \<Rightarrow> world \<Rightarrow> world" where
  "Register env w =
     (let msg = \<lparr>Type = ''register'', Payload = []\<rparr>;
          w1 = log_line Log_SendingRegister w
      in case WriteJSON env msg w1 of
           (w2, Some e) \<Rightarrow> log_line (Log_RegisterError e) w2
         | (w2, None) \<Rightarrow> log_line Log_RegisterSent w2)"

text \<open>\<^verbatim>\<open>setupDataChannel\<close>: registers the two handlers on the channel. The open handler
  captures the channel and the peer identifier, the message handler the peer
  identifier.\<close>

definition setupDataChannel :: "nat \<Rightarrow> string \<Rightarrow> world \<Rightarrow> world" where
  "setupDataChannel dc pid w =
     w\<lparr>dcs := (dcs w)[dc := (dcs w ! dc)\<lparr>onOpen := Some (dc, pid), onMessage := Some pid\<rparr>]\<rparr>"

text \<open>The payloads built with \<^verbatim>\<open>fmt.Sprintf\<close> in \<^verbatim>\<open>ConnectToPeer\<close> and \<^verbatim>\<open>handleOffer\<close>.\<close>

definition offer_payload :: "string \<Rightarrow> string \<Rightarrow> string" where
  \<open>offer_payload pid sdp = ''{"target":"'' @ pid @ ''","offer":'' @ sdp @ ''}''\<close>

definition answer_payload :: "string \<Rightarrow> string \<Rightarrow> string" where
  \<open>answer_payload pid sdp = ''{"target":"'' @ pid @ ''","answer":'' @ sdp @ ''}''\<close>

text \<open>\<^verbatim>\<open>ConnectToPeer\<close>: returns the error of the first collaborator call that fails;
  the error of the final \<^verbatim>\<open>WriteJSON\<close> is not read.\<close>

definition ConnectToPeer :: "env \<Rightarrow> string \<Rightarrow> world \<Rightarrow> world \<times> error option" where
  "ConnectToPeer env pid w =
     (case NewPeerConnection env w of
        (w1, Inl e) \<Rightarrow> (w1, Some e)
      | (w1, Inr peerConnection) \<Rightarrow>
     (case CreateDataChannel env peerConnection ''data'' w1 of
        (w2, Inl e) \<Rightarrow> (w2, Some e)
      | (w2, Inr dataChannel) \<Rightarrow>
     (case CreateOffer env peerConnection (setupDataChannel dataChannel pid w2) of
        (w3, Inl e) \<Rightarrow> (w3, Some e)
      | (w3, Inr offer) \<Rightarrow>
     (case SetLocalDescription env peerConnection offer w3 of
        (w4, Some e) \<Rightarrow> (w4, Some e)
      | (w4, None) \<Rightarrow>
          (let w5 = w4\<lparr>client := (client w4)\<lparr>peerConns := (peerConns (client w4))(pid \<mapsto> peerConnection)\<rparr>\<rparr>;
               offerMsg = \<lparr>Type = ''offer'', Payload = offer_payload pid (SDP offer)\<rparr>
           in (fst (WriteJSON env offerMsg w5), None))))))"

text \<open>\<^verbatim>\<open>SendMessage\<close>.\<close>

definition SendMessage :: "string \<Rightarrow> string \<Rightarrow> world \<Rightarrow> world" where
  "SendMessage pid message w =
     (case dataChannels (client w) pid of
        Some dataChannel \<Rightarrow> print_line (Print_MessageSent pid message) (SendText dataChannel message w)
      | None \<Rightarrow> print_line (Print_NoOpenDataChannel pid) w)"

text \<open>\<^verbatim>\<open>handleOffer\<close>: every failure is logged and ends the function.\<close>

definition handleOffer :: "env \<Rightarrow> SessionDescription \<Rightarrow> string \<Rightarrow> world \<Rightarrow> world" where
  "handleOffer env offer src w =
     (case NewPeerConnection env w of
        (w1, Inl e) \<Rightarrow> log_line (Log_CreatePeerConnectionError e) w1
      | (w1, Inr peerConnection) \<Rightarrow>
     (case SetRemoteDescription env peerConnection offer (OnDataChannel peerConnection src w1) of
        (w2, Some e) \<Rightarrow> log_line (Log_SetRemoteDescriptionError e) w2
      | (w2, None) \<Rightarrow>
     (case CreateAnswer env peerConnection w2 of
        (w3, Inl e) \<Rightarrow> log_line (Log_CreateAnswerError e) w3
      | (w3, Inr answer) \<Rightarrow>
     (case SetLocalDescription env peerConnection answer w3 of
        (w4, Some e) \<Rightarrow> log_line (Log_SetLocalDescriptionError e) w4
      | (w4, None) \<Rightarrow>
          (let w5 = w4\<lparr>client := (client w4)\<lparr>peerConns := (peerConns (client w4))(src \<mapsto> peerConnection)\<rparr>\<rparr>;
               answerMsg = \<lparr>Type = ''answer'', Payload = answer_payload src (SDP answer)\<rparr>
           in fst (WriteJSON env answerMsg w5))))))"

text \<open>\<^verbatim>\<open>handleAnswer\<close> and \<^verbatim>\<open>handleICECandidate\<close>: act only on a peer found in
  \<^verbatim>\<open>peerConns\<close>; the collaborator's error is not read.\<close>

definition handleAnswer :: "env \<Rightarrow> SessionDescription \<Rightarrow> string \<Rightarrow> world \<Rightarrow> world" where
  "handleAnswer env answer src w =
     (case peerConns (client w) src of
        Some peerConnection \<Rightarrow> fst (SetRemoteDescription env peerConnection answer w)
      | None \<Rightarrow> w)"

definition handleICECandidate :: "ICECandidateInit \<Rightarrow> string \<Rightarrow> world \<Rightarrow> world" where
  "handleICECandidate candidate src w =
     (case peerConns (client w) src of
        Some peerConnection \<Rightarrow> AddICECandidate peerConnection candidate w
      | None \<Rightarrow> w)"

text \<open>The body of the loop of \<^verbatim>\<open>handleIncomingMessages\<close> for a message read without
  error: two log lines, then the switch on the message type. For \<^verbatim>\<open>offer\<close>,
  \<^verbatim>\<open>answer\<close> and \<^verbatim>\<open>ice-candidate\<close> the error of \<^verbatim>\<open>json.Unmarshal\<close> is not read.\<close>

definition dispatch :: "env \<Rightarrow> Message \<Rightarrow> world \<Rightarrow> world" where
  "dispatch env msg w =
     (let w0 = log_line (Log_FullMessage msg) (log_line (Log_ReceivedType (Type msg)) w) in
      if Type msg = ''registered'' then
        (case Unmarshal_registered env (Payload msg) of
           (Some e, pid) \<Rightarrow> log_line (Log_UnmarshalRegisteredError e) w0
         | (None, pid) \<Rightarrow>
             if pid = [] then log_line Log_EmptyPeerID w0
             else print_line (Print_Registered pid)
                    (log_line (Log_Registered pid) (w0\<lparr>client := (client w0)\<lparr>peerID := pid\<rparr>\<rparr>)))
      else if Type msg = ''offer'' then
        (case Unmarshal_offer env (Payload msg) of (err, offer, src) \<Rightarrow> handleOffer env offer src w0)
      else if Type msg = ''answer'' then
        (case Unmarshal_answer env (Payload msg) of (err, answer, src) \<Rightarrow> handleAnswer env answer src w0)
      else if Type msg = ''ice-candidate'' then
        (case Unmarshal_candidate env (Payload msg) of
           (err, candidate, src) \<Rightarrow> handleICECandidate candidate src w0)
      else w0)"

text \<open>What \<^verbatim>\<open>c.conn.ReadJSON(&msg)\<close> returns: an error (the connection closed, a read
  failed, or the bytes received are not the JSON of a \<^verbatim>\<open>Message\<close>), or a message.\<close>

datatype read_result = ReadError error | ReadMessage Message

datatype loop_status = Waiting | Returned

text \<open>\<^verbatim>\<open>handleIncomingMessages\<close>, over the results of the successive reads: the loop
  returns at the first read error and otherwise goes on to the next read; with no
  further result it is waiting in \<^verbatim>\<open>ReadJSON\<close>.\<close>

fun handleIncomingMessages :: "env \<Rightarrow> read_result list \<Rightarrow> world \<Rightarrow> world \<times> loop_status" where
  "handleIncomingMessages env [] w = (w, Waiting)"
| "handleIncomingMessages env (ReadError e # rest) w =
     (if IsUnexpectedCloseError e [CloseGoingAway, CloseAbnormalClosure]
      then (log_line (Log_UnexpectedClose e) w, Returned)
      else (log_line (Log_ReadError e) w, Returned))"
| "handleIncomingMessages env (ReadMessage msg # rest) w =
     handleIncomingMessages env rest (dispatch env msg w)"

subsection \<open>Handlers run by the WebRTC library\<close>

text \<open>The library reports the channel at address \<open>dc\<close> open and runs the handler
  registered with \<^verbatim>\<open>OnOpen\<close>, if any: the closure of \<^verbatim>\<open>setupDataChannel\<close>, which prints and
  stores the channel it captured under the peer identifier it captured.\<close>

definition DataChannel_opens :: "nat \<Rightarrow> world \<Rightarrow> world" where
  "DataChannel_opens dc w =
     (if dc < length (dcs w) then
        (case onOpen (dcs w ! dc) of
           None \<Rightarrow> w
         | Some (dataChannel, pid) \<Rightarrow>
             (let w1 = print_line (Print_DataChannelOpened pid) w
              in w1\<lparr>client := (client w1)\<lparr>dataChannels := (dataChannels (client w1))(pid \<mapsto> dataChannel)\<rparr>\<rparr>))
      else w)"

text \<open>A message arrives on the channel at address \<open>dc\<close>: the \<^verbatim>\<open>OnMessage\<close> handler
  prints it.\<close>

definition DataChannel_receives :: "nat \<Rightarrow> string \<Rightarrow> world \<Rightarrow> world" where
  "DataChannel_receives dc data w =
     (if dc < length (dcs w) then
        (case onMessage (dcs w ! dc) of
           None \<Rightarrow> w
         | Some pid \<Rightarrow> print_line (Print_ReceivedMessage pid data) w)
      else w)"

text \<open>The remote side opened a channel on the connection at address \<open>pc\<close>: the library
  makes the channel object and runs the \<^verbatim>\<open>OnDataChannel\<close> handler on it, which is
  \<^verbatim>\<open>setupDataChannel\<close> with the captured peer identifier.\<close>

definition PeerConnection_gets_channel :: "nat \<Rightarrow> string \<Rightarrow> world \<Rightarrow> world" where
  "PeerConnection_gets_channel pc label w =
     (if pc < length (pcs w) then
        (let dataChannel = length (dcs w);
             w1 = w\<lparr>dcs := dcs w @ [\<lparr>dcLabel = label, onOpen = None, onMessage = None, sentText = []\<rparr>]\<rparr>
         in case onDataChannel (pcs w ! pc) of
              None \<Rightarrow> w1
            | Some src \<Rightarrow> setupDataChannel dataChannel src w1)
      else w)"

subsection \<open>The command loop\<close>

text \<open>The text before and after the first occurrence of \<open>sep\<close> in a string
  (\<^verbatim>\<open>strings.Index\<close>), if there is one.\<close>

fun cut_at :: "string \<Rightarrow> string \<Rightarrow> (string \<times> string) option" where
  "cut_at sep [] = (if sep = [] then Some ([], []) else None)"
| "cut_at sep (c # cs) =
     (if take (length sep) (c # cs) = sep then Some ([], drop (length sep) (c # cs))
      else map_option (\<lambda>(before, after). (c # before, after)) (cut_at sep cs))"

text \<open>\<^verbatim>\<open>strings.SplitN(s, sep, n)\<close> for a non-empty separator and \<open>n \<ge> 0\<close>: at most \<open>n\<close>
  substrings, the last one the unsplit remainder; none for \<open>n = 0\<close>.\<close>

fun SplitN :: "string \<Rightarrow> string \<Rightarrow> nat \<Rightarrow> string list" where
  "SplitN s sep 0 = []"
| "SplitN s sep (Suc 0) = [s]"
| "SplitN s sep (Suc (Suc n)) =
     (case cut_at sep s of
        None \<Rightarrow> [s]
      | Some (before, after) \<Rightarrow> before # SplitN after sep (Suc n))"

datatype control = Continue | Return | Panic

text \<open>One iteration of the loop of \<^verbatim>\<open>main\<close> on the line the scanner holds. Indexing
  \<^verbatim>\<open>parts[0]\<close> of an empty slice would panic.\<close>

definition main_iteration :: "env \<Rightarrow> string \<Rightarrow> world \<Rightarrow> world \<times> control" where
  "main_iteration env input w =
     (let w0 = print_line Print_Prompt w;
          parts = SplitN input '' '' 3
      in case parts of
           [] \<Rightarrow> (w0, Panic)
         | cmd # args \<Rightarrow>
             if cmd = ''register'' then (Register env w0, Continue)
             else if cmd = ''connect'' then
               (if length parts < 2 then (print_line Print_UsageConnect w0, Continue)
                else case ConnectToPeer env (parts ! 1) w0 of
                       (w1, Some e) \<Rightarrow> (print_line (Print_ConnectError e) w1, Continue)
                     | (w1, None) \<Rightarrow> (w1, Continue))
             else if cmd = ''send'' then
               (if length parts < 3 then (print_line Print_UsageSend w0, Continue)
                else (SendMessage (parts ! 1) (parts ! 2) w0, Continue))
             else if cmd = ''exit'' then (w0, Return)
             else (print_line Print_UnknownCommand w0, Continue))"

text \<open>The loop of \<^verbatim>\<open>main\<close> for a number of iterations, over the lines the scanner
  yields; once the input has ended \<^verbatim>\<open>scanner.Text()\<close> is the empty string.\<close>

fun main_loop :: "env \<Rightarrow> nat \<Rightarrow> string list \<Rightarrow> world \<Rightarrow> world \<times> control" where
  "main_loop env 0 lines w = (w, Continue)"
| "main_loop env (Suc n) lines w =
     (case main_iteration env (case lines of [] \<Rightarrow> [] | l # rest \<Rightarrow> l) w of
        (w1, Continue) \<Rightarrow> main_loop env n (tl lines) w1
      | (w1, Return) \<Rightarrow> (w1, Return)
      | (w1, Panic) \<Rightarrow> (w1, Panic))"

text \<open>\<^verbatim>\<open>main\<close>: a failed dial is fatal; otherwise the banner and the list of commands are
  printed and the command loop runs. The dispatch loop is started beside it
  (\<^verbatim>\<open>go client.handleIncomingMessages()\<close>): a run of the program interleaves iterations
  of the two loops and the library's handlers, each of them one step on the world.\<close>

definition main_enters_loop :: "Client \<Rightarrow> world" where
  "main_enters_loop c = print_line Print_Commands (print_line Print_Banner (start_world c))"

definition main :: "env \<Rightarrow> nat \<Rightarrow> string list \<Rightarrow> error + world \<times> control" where
  "main env n lines =
     (case NewClient env ''ws://localhost:8080/ws'' of
        Inl e \<Rightarrow> Inl e
      | Inr c \<Rightarrow> Inr (main_loop env n lines (main_enters_loop c)))"

section \<open>A concrete setting for examples\<close>

text \<open>A client as \<^verbatim>\<open>NewClient\<close> makes it, and collaborators whose calls all succeed. The
  decoders agree with \<^verbatim>\<open>json.Unmarshal\<close> on the few payloads the examples use: a number
  where a string is expected is reported as an error while the other fields are still
  filled in. Every payload the client builds itself has an SDP text put into it without
  quotes, which is not JSON text, so marshalling accepts the nil payload only.\<close>

definition example_client :: Client where
  "example_client = \<lparr>peerID = [], peerConns = Map.empty, dataChannels = Map.empty\<rparr>"

definition example_env :: env where
  \<open>example_env =
     \<lparr>Dial_result = (\<lambda>url. None),
      WriteJSON_result = (\<lambda>w msg. None),
      Marshal_result = (\<lambda>msg.
        if Payload msg = [] then None
        else Some (OtherError ''json: error calling MarshalJSON for type json.RawMessage'')),
      Unmarshal_registered = (\<lambda>p.
        if p = ''{"peerId":"abc"}'' then (None, ''abc'')
        else if p = ''{}'' then (None, [])
        else (Some (OtherError ''invalid''), [])),
      Unmarshal_offer = (\<lambda>p.
        if p = ''{"offer":{"type":"offer","sdp":"o1"},"source":"p1"}''
          then (None, \<lparr>sdType = SDPTypeOffer, SDP = ''o1''\<rparr>, ''p1'')
        else if p = ''{"offer":{"type":"offer","sdp":"o2"},"source":"p2"}''
          then (None, \<lparr>sdType = SDPTypeOffer, SDP = ''o2''\<rparr>, ''p2'')
        else if p = ''{"offer":{"type":"offer","sdp":"o3"},"source":3}''
          then (Some (OtherError ''cannot unmarshal number into Go struct field .source of type string''),
                \<lparr>sdType = SDPTypeOffer, SDP = ''o3''\<rparr>, [])
        else (Some (OtherError ''invalid''), \<lparr>sdType = SDPTypeUnknown, SDP = []\<rparr>, [])),
      Unmarshal_answer = (\<lambda>p.
        if p = ''{"answer":{"type":"answer","sdp":"a1"},"source":"xyz"}''
          then (None, \<lparr>sdType = SDPTypeAnswer, SDP = ''a1''\<rparr>, ''xyz'')
        else (Some (OtherError ''invalid''), \<lparr>sdType = SDPTypeUnknown, SDP = []\<rparr>, [])),
      Unmarshal_candidate = (\<lambda>p.
        if p = ''{"candidate":{"candidate":"c1"},"source":"xyz"}''
          then (None, \<lparr>Candidate = ''c1'', SDPMid = None, SDPMLineIndex = None, UsernameFragment = None\<rparr>, ''xyz'')
        else (Some (OtherError ''invalid''),
              \<lparr>Candidate = [], SDPMid = None, SDPMLineIndex = None, UsernameFragment = None\<rparr>, [])),
      NewPeerConnection_result = (\<lambda>w. None),
      CreateDataChannel_result = (\<lambda>w pc label. None),
      CreateOffer_result = (\<lambda>w pc. Inr \<lparr>sdType = SDPTypeOffer, SDP = ''v=0 offer''\<rparr>),
      CreateAnswer_result = (\<lambda>w pc. Inr \<lparr>sdType = SDPTypeAnswer, SDP = ''v=0 answer''\<rparr>),
      SetLocalDescription_result = (\<lambda>w pc desc. None),
      SetRemoteDescription_result = (\<lambda>w pc desc. None)\<rparr>\<close>

text \<open>The WebRTC library succeeds: none of its calls that the client checks returns an
  error, in whatever state it is called.\<close>

definition webrtc_succeeds :: "env \<Rightarrow> bool" where
  "webrtc_succeeds env \<longleftrightarrow>
     (\<forall>w. NewPeerConnection_result env w = None) \<and>
     (\<forall>w pc label. CreateDataChannel_result env w pc label = None) \<and>
     (\<forall>w pc e. CreateOffer_result env w pc \<noteq> Inl e) \<and>
     (\<forall>w pc e. CreateAnswer_result env w pc \<noteq> Inl e) \<and>
     (\<forall>w pc desc. SetLocalDescription_result env w pc desc = None) \<and>
     (\<forall>w pc desc. SetRemoteDescription_result env w pc desc = None)"

text \<open>The relay connection takes every frame.\<close>

definition relay_connection_works :: "env \<Rightarrow> bool" where
  "relay_connection_works env \<longleftrightarrow> (\<forall>w msg. WriteJSON_result env w msg = None)"

text \<open>The same collaborators, except that building a description (an offer or an answer)
  fails.\<close>

definition failing_env :: env where
  "failing_env =
     example_env\<lparr>CreateOffer_result := (\<lambda>w pc. Inl (OtherError ''closed'')),
                  CreateAnswer_result := (\<lambda>w pc. Inl (OtherError ''closed''))\<rparr>"

section \<open>Properties\<close>

lemmas collaborator_defs = NewPeerConnection_def CreateDataChannel_def CreateOffer_def CreateAnswer_def
  SetLocalDescription_def SetRemoteDescription_def AddICECandidate_def OnDataChannel_def SendText_def
  pc_called_def log_line_def print_line_def setupDataChannel_def

lemmas example_defs = example_env_def example_client_def start_world_def

lemma example_env_succeeds: "webrtc_succeeds example_env"
  by (simp add: webrtc_succeeds_def example_env_def)

subsection \<open>What a collaborator call leaves alone\<close>

lemma pc_called_frame [simp]:
  "client (pc_called pc c w) = client w" "written (pc_called pc c w) = written w"
  "dcs (pc_called pc c w) = dcs w" "logs (pc_called pc c w) = logs w"
  "stdout (pc_called pc c w) = stdout w" "length (pcs (pc_called pc c w)) = length (pcs w)"
  by (simp_all add: pc_called_def)

lemma log_line_frame [simp]:
  "client (log_line l w) = client w" "written (log_line l w) = written w"
  "pcs (log_line l w) = pcs w" "dcs (log_line l w) = dcs w" "stdout (log_line l w) = stdout w"
  by (simp_all add: log_line_def)

lemma print_line_frame [simp]:
  "client (print_line l w) = client w" "written (print_line l w) = written w"
  "pcs (print_line l w) = pcs w" "dcs (print_line l w) = dcs w" "logs (print_line l w) = logs w"
  by (simp_all add: print_line_def)

lemma setupDataChannel_frame [simp]:
  "client (setupDataChannel dc pid w) = client w" "written (setupDataChannel dc pid w) = written w"
  "pcs (setupDataChannel dc pid w) = pcs w" "logs (setupDataChannel dc pid w) = logs w"
  "stdout (setupDataChannel dc pid w) = stdout w"
  by (simp_all add: setupDataChannel_def)

lemma OnDataChannel_frame [simp]:
  "client (OnDataChannel pc src w) = client w" "written (OnDataChannel pc src w) = written w"
  "dcs (OnDataChannel pc src w) = dcs w" "logs (OnDataChannel pc src w) = logs w"
  "stdout (OnDataChannel pc src w) = stdout w"
  by (simp_all add: OnDataChannel_def)

lemma NewPeerConnection_frame:
  "NewPeerConnection env w = (w1, r) \<Longrightarrow>
     client w1 = client w \<and> written w1 = written w \<and> dcs w1 = dcs w \<and> logs w1 = logs w \<and>
     stdout w1 = stdout w"
  by (auto simp: NewPeerConnection_def split: option.splits)

lemma CreateDataChannel_frame:
  "CreateDataChannel env pc label w = (w1, r) \<Longrightarrow>
     client w1 = client w \<and> written w1 = written w \<and> logs w1 = logs w \<and> stdout w1 = stdout w"
  by (auto simp: CreateDataChannel_def Let_def split: option.splits)

lemma CreateOffer_frame:
  "CreateOffer env pc w = (w1, r) \<Longrightarrow>
     client w1 = client w \<and> written w1 = written w \<and> dcs w1 = dcs w \<and> logs w1 = logs w \<and>
     stdout w1 = stdout w"
  by (auto simp: CreateOffer_def)

lemma CreateAnswer_frame:
  "CreateAnswer env pc w = (w1, r) \<Longrightarrow>
     client w1 = client w \<and> written w1 = written w \<and> dcs w1 = dcs w \<and> logs w1 = logs w \<and>
     stdout w1 = stdout w"
  by (auto simp: CreateAnswer_def)

lemma SetLocalDescription_frame:
  "SetLocalDescription env pc d w = (w1, r) \<Longrightarrow>
     client w1 = client w \<and> written w1 = written w \<and> dcs w1 = dcs w \<and> logs w1 = logs w \<and>
     stdout w1 = stdout w"
  by (auto simp: SetLocalDescription_def)

lemma SetRemoteDescription_frame:
  "SetRemoteDescription env pc d w = (w1, r) \<Longrightarrow>
     client w1 = client w \<and> written w1 = written w \<and> dcs w1 = dcs w \<and> logs w1 = logs w \<and>
     stdout w1 = stdout w"
  by (auto simp: SetRemoteDescription_def)

lemma handleAnswer_client [simp]: "client (handleAnswer env answer src w) = client w"
  by (simp add: handleAnswer_def SetRemoteDescription_def split: option.splits)

lemma handleICECandidate_client [simp]: "client (handleICECandidate candidate src w) = client w"
  by (simp add: handleICECandidate_def AddICECandidate_def split: option.splits)

subsection \<open>Writing to the relay\<close>

lemma WriteJSON_frame [simp]:
  "client (fst (WriteJSON env msg w)) = client w" "pcs (fst (WriteJSON env msg w)) = pcs w"
  "dcs (fst (WriteJSON env msg w)) = dcs w" "logs (fst (WriteJSON env msg w)) = logs w"
  "stdout (fst (WriteJSON env msg w)) = stdout w"
  by (simp_all add: WriteJSON_def split: option.splits)

lemma WriteJSON_sends:
  "relay_connection_works env \<Longrightarrow>
     written (fst (WriteJSON env msg w)) =
       written w @ [case Marshal_result env msg of None \<Rightarrow> Envelope msg | Some e \<Rightarrow> Empty_frame]"
  by (simp add: WriteJSON_def relay_connection_works_def split: option.splits)

subsection \<open>The two negotiations, when they go through\<close>

lemma ConnectToPeer_success:
  "ConnectToPeer env pid w = (w', None) \<Longrightarrow>
     \<exists>offer w3.
       CreateOffer_result env w3 (length (pcs w)) = Inr offer \<and>
       client w' = (client w)\<lparr>peerConns := (peerConns (client w))(pid \<mapsto> length (pcs w))\<rparr> \<and>
       pcs w' = pcs w @ [\<lparr>calls = [Call_CreateDataChannel ''data'', Call_CreateOffer,
                                   Call_SetLocalDescription offer],
                          onDataChannel = None\<rparr>] \<and>
       dcs w' = dcs w @ [\<lparr>dcLabel = ''data'', onOpen = Some (length (dcs w), pid),
                          onMessage = Some pid, sentText = []\<rparr>] \<and>
       stdout w' = stdout w \<and> logs w' = logs w"
  by (auto simp: ConnectToPeer_def collaborator_defs Let_def split: prod.splits sum.splits option.splits)

lemma ConnectToPeer_sends:
  "relay_connection_works env \<Longrightarrow> ConnectToPeer env pid w = (w', None) \<Longrightarrow>
     \<exists>offer w3.
       CreateOffer_result env w3 (length (pcs w)) = Inr offer \<and>
       written w' =
         written w @
         [case Marshal_result env \<lparr>Type = ''offer'', Payload = offer_payload pid (SDP offer)\<rparr> of
            None \<Rightarrow> Envelope \<lparr>Type = ''offer'', Payload = offer_payload pid (SDP offer)\<rparr>
          | Some e \<Rightarrow> Empty_frame]"
  by (auto simp: ConnectToPeer_def collaborator_defs WriteJSON_sends Let_def
      split: prod.splits sum.splits option.splits)

lemma ConnectToPeer_succeeds:
  "webrtc_succeeds env \<Longrightarrow> snd (ConnectToPeer env pid w) = None"
  by (auto simp: webrtc_succeeds_def ConnectToPeer_def collaborator_defs Let_def
      split: prod.splits sum.splits option.splits)

lemma handleOffer_cases:
  "client (handleOffer env offer src w) = client w \<or>
   (\<exists>answer.
      client (handleOffer env offer src w) =
        (client w)\<lparr>peerConns := (peerConns (client w))(src \<mapsto> length (pcs w))\<rparr> \<and>
      pcs (handleOffer env offer src w) =
        pcs w @ [\<lparr>calls = [Call_SetRemoteDescription offer, Call_CreateAnswer,
                            Call_SetLocalDescription answer],
                   onDataChannel = Some src\<rparr>] \<and>
      dcs (handleOffer env offer src w) = dcs w \<and>
      stdout (handleOffer env offer src w) = stdout w \<and>
      logs (handleOffer env offer src w) = logs w)"
  by (auto simp: handleOffer_def collaborator_defs Let_def split: prod.splits sum.splits option.splits)

lemma handleOffer_succeeds:
  "webrtc_succeeds env \<Longrightarrow> relay_connection_works env \<Longrightarrow>
   \<exists>answer w3.
      CreateAnswer_result env w3 (length (pcs w)) = Inr answer \<and>
      client (handleOffer env offer src w) =
        (client w)\<lparr>peerConns := (peerConns (client w))(src \<mapsto> length (pcs w))\<rparr> \<and>
      pcs (handleOffer env offer src w) =
        pcs w @ [\<lparr>calls = [Call_SetRemoteDescription offer, Call_CreateAnswer,
                            Call_SetLocalDescription answer],
                   onDataChannel = Some src\<rparr>] \<and>
      dcs (handleOffer env offer src w) = dcs w \<and>
      written (handleOffer env offer src w) =
        written w @
        [case Marshal_result env \<lparr>Type = ''answer'', Payload = answer_payload src (SDP answer)\<rparr> of
           None \<Rightarrow> Envelope \<lparr>Type = ''answer'', Payload = answer_payload src (SDP answer)\<rparr>
         | Some e \<Rightarrow> Empty_frame] \<and>
      stdout (handleOffer env offer src w) = stdout w \<and>
      logs (handleOffer env offer src w) = logs w"
  by (auto simp: webrtc_succeeds_def handleOffer_def collaborator_defs WriteJSON_sends Let_def
      split: prod.splits sum.splits option.splits)

subsection \<open>One session per peer\<close>

text \<open>
  C1, as stated, fails: obtaining a session twice for the same peer does not return the
  same instance. In a fresh client, \<^verbatim>\<open>connect xyz\<close> stores connection object 0 under
  \<^verbatim>\<open>xyz\<close>; a second \<^verbatim>\<open>connect xyz\<close>, or an offer from \<^verbatim>\<open>xyz\<close>, makes a second
  connection object and stores that one instead.
\<close>

theorem connect_twice_new_connection:
  "peerConns (client (fst (ConnectToPeer example_env ''xyz'' (start_world example_client)))) ''xyz'' = Some 0 \<and>
   peerConns (client (fst (ConnectToPeer example_env ''xyz''
      (fst (ConnectToPeer example_env ''xyz'' (start_world example_client)))))) ''xyz'' = Some 1 \<and>
   length (pcs (fst (ConnectToPeer example_env ''xyz''
      (fst (ConnectToPeer example_env ''xyz'' (start_world example_client)))))) = 2 \<and>
   peerConns (client (handleOffer example_env \<lparr>sdType = SDPTypeOffer, SDP = ''o1''\<rparr> ''xyz''
      (fst (ConnectToPeer example_env ''xyz'' (start_world example_client))))) ''xyz'' = Some 1"
  by (simp add: ConnectToPeer_def handleOffer_def collaborator_defs example_defs Let_def)

text \<open>
  C1, amended: the registry maps a peer identifier to at most one connection object at a
  time, but obtaining a session is not idempotent. A \<^verbatim>\<open>connect\<close> that succeeds makes a
  fresh connection object and stores it under the peer, in place of whatever was stored
  there, and leaves the other peers' entries alone; the entry differs from every object
  that existed before. Handling an offer either leaves the registry as it was or does the
  same for the offer's source.
\<close>

theorem session_replaced_by_fresh_connection:
  "(ConnectToPeer env pid w = (w', None) \<longrightarrow>
      peerConns (client w') = (peerConns (client w))(pid \<mapsto> length (pcs w)) \<and>
      length (pcs w') = Suc (length (pcs w)) \<and>
      (\<forall>a. a < length (pcs w) \<longrightarrow> peerConns (client w') pid \<noteq> Some a)) \<and>
   (peerConns (client (handleOffer env offer src w)) = peerConns (client w) \<or>
      peerConns (client (handleOffer env offer src w)) = (peerConns (client w))(src \<mapsto> length (pcs w)) \<and>
      length (pcs (handleOffer env offer src w)) = Suc (length (pcs w)))"
proof -
  have "peerConns (client w') = (peerConns (client w))(pid \<mapsto> length (pcs w)) \<and>
      length (pcs w') = Suc (length (pcs w)) \<and>
      (\<forall>a. a < length (pcs w) \<longrightarrow> peerConns (client w') pid \<noteq> Some a)"
    if "ConnectToPeer env pid w = (w', None)"
    using ConnectToPeer_success [OF that] by auto
  moreover have "peerConns (client (handleOffer env offer src w)) = peerConns (client w) \<or>
      peerConns (client (handleOffer env offer src w)) = (peerConns (client w))(src \<mapsto> length (pcs w)) \<and>
      length (pcs (handleOffer env offer src w)) = Suc (length (pcs w))"
    using handleOffer_cases [of env offer src w] by auto
  ultimately show ?thesis by blast
qed

text \<open>The second \<^verbatim>\<open>connect xyz\<close> of a fresh client: the entry for \<^verbatim>\<open>xyz\<close> is the new
  object 1 and no longer object 0.\<close>

theorem session_replaced_by_fresh_connection_witness:
  "peerConns (client (fst (ConnectToPeer example_env ''xyz''
      (fst (ConnectToPeer example_env ''xyz'' (start_world example_client)))))) ''xyz'' = Some 1 \<and>
   peerConns (client (fst (ConnectToPeer example_env ''xyz''
      (fst (ConnectToPeer example_env ''xyz'' (start_world example_client)))))) ''xyz'' \<noteq> Some 0"
  using session_replaced_by_fresh_connection
    [of example_env "''xyz''" "fst (ConnectToPeer example_env ''xyz'' (start_world example_client))"
        "fst (ConnectToPeer example_env ''xyz''
           (fst (ConnectToPeer example_env ''xyz'' (start_world example_client))))"]
  by (simp add: ConnectToPeer_def collaborator_defs example_defs Let_def)

subsection \<open>A negotiation that fails\<close>

lemma ConnectToPeer_fails_1:
  assumes "NewPeerConnection env w = (w1, Inl e)"
  shows "ConnectToPeer env pid w = (w1, Some e) \<and> client w1 = client w \<and> written w1 = written w"
  using NewPeerConnection_frame [OF assms] by (simp add: ConnectToPeer_def assms)

lemma ConnectToPeer_fails_2:
  assumes "NewPeerConnection env w = (w1, Inr pc)"
    and "CreateDataChannel env pc ''data'' w1 = (w2, Inl e)"
  shows "ConnectToPeer env pid w = (w2, Some e) \<and> client w2 = client w \<and> written w2 = written w"
  using NewPeerConnection_frame [OF assms(1)] CreateDataChannel_frame [OF assms(2)]
  by (simp add: ConnectToPeer_def assms)

lemma ConnectToPeer_fails_3:
  assumes "NewPeerConnection env w = (w1, Inr pc)"
    and "CreateDataChannel env pc ''data'' w1 = (w2, Inr dc)"
    and "CreateOffer env pc (setupDataChannel dc pid w2) = (w3, Inl e)"
  shows "ConnectToPeer env pid w = (w3, Some e) \<and> client w3 = client w \<and> written w3 = written w"
  using NewPeerConnection_frame [OF assms(1)] CreateDataChannel_frame [OF assms(2)]
    CreateOffer_frame [OF assms(3)]
  by (simp add: ConnectToPeer_def assms)

lemma ConnectToPeer_fails_4:
  assumes "NewPeerConnection env w = (w1, Inr pc)"
    and "CreateDataChannel env pc ''data'' w1 = (w2, Inr dc)"
    and "CreateOffer env pc (setupDataChannel dc pid w2) = (w3, Inr desc)"
    and "SetLocalDescription env pc desc w3 = (w4, Some e)"
  shows "ConnectToPeer env pid w = (w4, Some e) \<and> client w4 = client w \<and> written w4 = written w"
  using NewPeerConnection_frame [OF assms(1)] CreateDataChannel_frame [OF assms(2)]
    CreateOffer_frame [OF assms(3)] SetLocalDescription_frame [OF assms(4)]
  by (simp add: ConnectToPeer_def assms)

lemma ConnectToPeer_error:
  "ConnectToPeer env pid w = (w', Some e) \<Longrightarrow> client w' = client w \<and> written w' = written w"
  by (auto simp: ConnectToPeer_def collaborator_defs Let_def split: prod.splits sum.splits option.splits)

lemma handleOffer_fails_1:
  assumes "NewPeerConnection env w = (w1, Inl e)"
  shows "handleOffer env offer src w = log_line (Log_CreatePeerConnectionError e) w1 \<and>
         client (handleOffer env offer src w) = client w \<and>
         written (handleOffer env offer src w) = written w"
  using NewPeerConnection_frame [OF assms] by (simp add: handleOffer_def assms)

lemma handleOffer_fails_2:
  assumes "NewPeerConnection env w = (w1, Inr pc)"
    and "SetRemoteDescription env pc offer (OnDataChannel pc src w1) = (w2, Some e)"
  shows "handleOffer env offer src w = log_line (Log_SetRemoteDescriptionError e) w2 \<and>
         client (handleOffer env offer src w) = client w \<and>
         written (handleOffer env offer src w) = written w"
  using NewPeerConnection_frame [OF assms(1)] SetRemoteDescription_frame [OF assms(2)]
  by (simp add: handleOffer_def assms)

lemma handleOffer_fails_3:
  assumes "NewPeerConnection env w = (w1, Inr pc)"
    and "SetRemoteDescription env pc offer (OnDataChannel pc src w1) = (w2, None)"
    and "CreateAnswer env pc w2 = (w3, Inl e)"
  shows "handleOffer env offer src w = log_line (Log_CreateAnswerError e) w3 \<and>
         client (handleOffer env offer src w) = client w \<and>
         written (handleOffer env offer src w) = written w"
  using NewPeerConnection_frame [OF assms(1)] SetRemoteDescription_frame [OF assms(2)]
    CreateAnswer_frame [OF assms(3)]
  by (simp add: handleOffer_def assms)

lemma handleOffer_fails_4:
  assumes "NewPeerConnection env w = (w1, Inr pc)"
    and "SetRemoteDescription env pc offer (OnDataChannel pc src w1) = (w2, None)"
    and "CreateAnswer env pc w2 = (w3, Inr desc)"
    and "SetLocalDescription env pc desc w3 = (w4, Some e)"
  shows "handleOffer env offer src w = log_line (Log_SetLocalDescriptionError e) w4 \<and>
         client (handleOffer env offer src w) = client w \<and>
         written (handleOffer env offer src w) = written w"
  using NewPeerConnection_frame [OF assms(1)] SetRemoteDescription_frame [OF assms(2)]
    CreateAnswer_frame [OF assms(3)] SetLocalDescription_frame [OF assms(4)]
  by (simp add: handleOffer_def assms)

text \<open>
  C8: when a call on the WebRTC library fails during \<^verbatim>\<open>connect\<close> or while an offer is
  handled (making the connection object, making the data channel, building the
  description, committing it), the operation ends there and the client, hence both of its
  maps, is as before: no session is stored, and nothing is handed to the relay. For
  \<^verbatim>\<open>connect\<close> this is every run that returns an error; stage by stage, the failing
  call's error is the one returned (for \<^verbatim>\<open>connect\<close>) or logged (for an offer).
\<close>

theorem negotiation_failure_keeps_registry:
  "(ConnectToPeer env pid w = (w', Some e) \<longrightarrow> client w' = client w \<and> written w' = written w) \<and>
   (NewPeerConnection env w = (w1, Inl e) \<longrightarrow>
      ConnectToPeer env pid w = (w1, Some e) \<and> client w1 = client w \<and> written w1 = written w) \<and>
   (NewPeerConnection env w = (w1, Inr pc) \<and>
    CreateDataChannel env pc ''data'' w1 = (w2, Inl e) \<longrightarrow>
      ConnectToPeer env pid w = (w2, Some e) \<and> client w2 = client w \<and> written w2 = written w) \<and>
   (NewPeerConnection env w = (w1, Inr pc) \<and>
    CreateDataChannel env pc ''data'' w1 = (w2, Inr dc) \<and>
    CreateOffer env pc (setupDataChannel dc pid w2) = (w3, Inl e) \<longrightarrow>
      ConnectToPeer env pid w = (w3, Some e) \<and> client w3 = client w \<and> written w3 = written w) \<and>
   (NewPeerConnection env w = (w1, Inr pc) \<and>
    CreateDataChannel env pc ''data'' w1 = (w2, Inr dc) \<and>
    CreateOffer env pc (setupDataChannel dc pid w2) = (w3, Inr desc) \<and>
    SetLocalDescription env pc desc w3 = (w4, Some e) \<longrightarrow>
      ConnectToPeer env pid w = (w4, Some e) \<and> client w4 = client w \<and> written w4 = written w) \<and>
   (NewPeerConnection env w = (v1, Inl e) \<longrightarrow>
      handleOffer env offer src w = log_line (Log_CreatePeerConnectionError e) v1 \<and>
      client (handleOffer env offer src w) = client w \<and>
      written (handleOffer env offer src w) = written w) \<and>
   (NewPeerConnection env w = (v1, Inr pc) \<and>
    SetRemoteDescription env pc offer (OnDataChannel pc src v1) = (v2, Some e) \<longrightarrow>
      handleOffer env offer src w = log_line (Log_SetRemoteDescriptionError e) v2 \<and>
      client (handleOffer env offer src w) = client w \<and>
      written (handleOffer env offer src w) = written w) \<and>
   (NewPeerConnection env w = (v1, Inr pc) \<and>
    SetRemoteDescription env pc offer (OnDataChannel pc src v1) = (v2, None) \<and>
    CreateAnswer env pc v2 = (v3, Inl e) \<longrightarrow>
      handleOffer env offer src w = log_line (Log_CreateAnswerError e) v3 \<and>
      client (handleOffer env offer src w) = client w \<and>
      written (handleOffer env offer src w) = written w) \<and>
   (NewPeerConnection env w = (v1, Inr pc) \<and>
    SetRemoteDescription env pc offer (OnDataChannel pc src v1) = (v2, None) \<and>
    CreateAnswer env pc v2 = (v3, Inr ans) \<and>
    SetLocalDescription env pc ans v3 = (v4, Some e) \<longrightarrow>
      handleOffer env offer src w = log_line (Log_SetLocalDescriptionError e) v4 \<and>
      client (handleOffer env offer src w) = client w \<and>
      written (handleOffer env offer src w) = written w)"
  using ConnectToPeer_error [of env pid w w' e]
    ConnectToPeer_fails_1 [of env w w1 e pid] ConnectToPeer_fails_2 [of env w w1 pc w2 e pid]
    ConnectToPeer_fails_3 [of env w w1 pc w2 dc pid w3 e]
    ConnectToPeer_fails_4 [of env w w1 pc w2 dc pid w3 desc w4 e]
    handleOffer_fails_1 [of env w v1 e offer src] handleOffer_fails_2 [of env w v1 pc offer src v2 e]
    handleOffer_fails_3 [of env w v1 pc offer src v2 v3 e]
    handleOffer_fails_4 [of env w v1 pc offer src v2 v3 ans v4 e]
  by blast

text \<open>With a library that cannot build descriptions, \<^verbatim>\<open>connect xyz\<close> in a fresh client
  fails at \<^verbatim>\<open>CreateOffer\<close> and an offer from \<^verbatim>\<open>p1\<close> fails at \<^verbatim>\<open>CreateAnswer\<close>;
  the client is unchanged and nothing is written.\<close>

theorem negotiation_failure_keeps_registry_witness:
  "snd (ConnectToPeer failing_env ''xyz'' (start_world example_client)) = Some (OtherError ''closed'') \<and>
   client (fst (ConnectToPeer failing_env ''xyz'' (start_world example_client))) = example_client \<and>
   written (fst (ConnectToPeer failing_env ''xyz'' (start_world example_client))) = [] \<and>
   client (handleOffer failing_env \<lparr>sdType = SDPTypeOffer, SDP = ''o1''\<rparr> ''p1''
             (start_world example_client)) = example_client \<and>
   written (handleOffer failing_env \<lparr>sdType = SDPTypeOffer, SDP = ''o1''\<rparr> ''p1''
             (start_world example_client)) = [] \<and>
   logs (handleOffer failing_env \<lparr>sdType = SDPTypeOffer, SDP = ''o1''\<rparr> ''p1''
             (start_world example_client)) = [Log_CreateAnswerError (OtherError ''closed'')]"
  using negotiation_failure_keeps_registry
    [where env = failing_env and w = "start_world example_client" and pid = "''xyz''"
       and e = "OtherError ''closed''" and pc = 0 and dc = 0
       and ?w1.0 = "fst (NewPeerConnection failing_env (start_world example_client))"
       and ?w2.0 = "fst (CreateDataChannel failing_env 0 ''data''
                      (fst (NewPeerConnection failing_env (start_world example_client))))"
       and ?w3.0 = "fst (CreateOffer failing_env 0 (setupDataChannel 0 ''xyz''
                      (fst (CreateDataChannel failing_env 0 ''data''
                        (fst (NewPeerConnection failing_env (start_world example_client)))))))"
       and offer = "\<lparr>sdType = SDPTypeOffer, SDP = ''o1''\<rparr>" and src = "''p1''"
       and ?v1.0 = "fst (NewPeerConnection failing_env (start_world example_client))"
       and ?v2.0 = "fst (SetRemoteDescription failing_env 0 \<lparr>sdType = SDPTypeOffer, SDP = ''o1''\<rparr>
                      (OnDataChannel 0 ''p1''
                        (fst (NewPeerConnection failing_env (start_world example_client)))))"
       and ?v3.0 = "fst (CreateAnswer failing_env 0
                      (fst (SetRemoteDescription failing_env 0 \<lparr>sdType = SDPTypeOffer, SDP = ''o1''\<rparr>
                        (OnDataChannel 0 ''p1''
                          (fst (NewPeerConnection failing_env (start_world example_client)))))))"]
  by (simp add: collaborator_defs failing_env_def example_defs)

subsection \<open>Answers and candidates from a peer without a session\<close>

text \<open>
  C3, as stated, fails on the count of log lines: it is never exactly one. For an
  \<^verbatim>\<open>answer\<close> from \<^verbatim>\<open>xyz\<close> in a fresh client, which has no session for \<^verbatim>\<open>xyz\<close>, the
  dispatcher writes its two lines for every message received (the type, then the whole
  message), and \<^verbatim>\<open>handleAnswer\<close> writes none.
\<close>

theorem answer_without_session_log_lines:
  \<open>peerConns (client (start_world example_client)) ''xyz'' = None \<and>
   snd (snd (Unmarshal_answer example_env ''{"answer":{"type":"answer","sdp":"a1"},"source":"xyz"}'')) = ''xyz'' \<and>
   logs (dispatch example_env
           \<lparr>Type = ''answer'', Payload = ''{"answer":{"type":"answer","sdp":"a1"},"source":"xyz"}''\<rparr>
           (start_world example_client)) =
     [Log_ReceivedType ''answer'',
      Log_FullMessage
        \<lparr>Type = ''answer'', Payload = ''{"answer":{"type":"answer","sdp":"a1"},"source":"xyz"}''\<rparr>] \<and>
   logs (handleAnswer example_env \<lparr>sdType = SDPTypeAnswer, SDP = ''a1''\<rparr> ''xyz''
           (start_world example_client)) = []\<close>
  by (simp add: dispatch_def handleAnswer_def log_line_def example_defs Let_def)

text \<open>
  C3, amended: for an \<^verbatim>\<open>answer\<close> or \<^verbatim>\<open>ice-candidate\<close> envelope whose source has no
  session, the handler does nothing at all, and processing the envelope changes nothing
  but the log, which gains the dispatcher's two lines for a received message: no
  envelope is written, no session is made or changed, and there is no failing branch.
\<close>

theorem no_session_no_effect:
  "peerConns (client w) src = None \<Longrightarrow>
     handleAnswer env answer src w = w \<and>
     handleICECandidate candidate src w = w \<and>
     (Type msg = ''answer'' \<and> snd (snd (Unmarshal_answer env (Payload msg))) = src \<longrightarrow>
        dispatch env msg w = w\<lparr>logs := logs w @ [Log_ReceivedType (Type msg), Log_FullMessage msg]\<rparr>) \<and>
     (Type msg = ''ice-candidate'' \<and> snd (snd (Unmarshal_candidate env (Payload msg))) = src \<longrightarrow>
        dispatch env msg w = w\<lparr>logs := logs w @ [Log_ReceivedType (Type msg), Log_FullMessage msg]\<rparr>)"
  by (auto simp: dispatch_def handleAnswer_def handleICECandidate_def log_line_def Let_def
      split: prod.splits)

text \<open>A candidate from \<^verbatim>\<open>xyz\<close> in a fresh client: only the log changes.\<close>

theorem no_session_no_effect_witness:
  \<open>handleICECandidate
     \<lparr>Candidate = ''c1'', SDPMid = None, SDPMLineIndex = None, UsernameFragment = None\<rparr> ''xyz''
     (start_world example_client) = start_world example_client \<and>
   dispatch example_env
     \<lparr>Type = ''ice-candidate'', Payload = ''{"candidate":{"candidate":"c1"},"source":"xyz"}''\<rparr>
     (start_world example_client) =
   (start_world example_client)
     \<lparr>logs := logs (start_world example_client) @
        [Log_ReceivedType ''ice-candidate'',
         Log_FullMessage
           \<lparr>Type = ''ice-candidate'', Payload = ''{"candidate":{"candidate":"c1"},"source":"xyz"}''\<rparr>]\<rparr>\<close>
  using no_session_no_effect
    [where w = "start_world example_client" and src = "''xyz''" and env = example_env
       and msg = \<open>\<lparr>Type = ''ice-candidate'', Payload = ''{"candidate":{"candidate":"c1"},"source":"xyz"}''\<rparr>\<close>
       and candidate = "\<lparr>Candidate = ''c1'', SDPMid = None, SDPMLineIndex = None, UsernameFragment = None\<rparr>"]
  by (simp add: example_defs)

subsection \<open>The local identifier\<close>



subsection \<open>The command line\<close>

lemma cut_at_space: "CHR '' '' \<notin> set p \<Longrightarrow> cut_at '' '' (p @ CHR '' '' # m) = Some (p, m)"
  by (induction p) auto

lemma SplitN_send:
  assumes "CHR '' '' \<notin> set pid"
  shows "SplitN (''send '' @ pid @ '' '' @ msg) '' '' 3 = [''send'', pid, msg]"
proof -
  have "cut_at '' '' (''send'' @ CHR '' '' # (pid @ '' '' @ msg)) = Some (''send'', pid @ '' '' @ msg)"
    by (rule cut_at_space) simp
  moreover have "cut_at '' '' (pid @ '' '' @ msg) = Some (pid, msg)"
    using cut_at_space [OF assms, of msg] by simp
  ultimately show ?thesis
    by (simp add: numeral_3_eq_3)
qed

lemma SplitN_length: "length (SplitN s sep n) \<le> n"
  by (induction s sep n rule: SplitN.induct) (auto split: option.splits)

lemma SplitN_nonempty: "SplitN s sep (Suc n) \<noteq> []"
  by (cases n) (auto split: option.splits)

lemma main_iteration_never_panics: "snd (main_iteration env input w) \<noteq> Panic"
proof -
  obtain cmd args where "SplitN input '' '' 3 = cmd # args"
    using SplitN_nonempty [of input "'' ''" 2] by (cases "SplitN input '' '' 3") (auto simp: numeral_3_eq_3)
  then show ?thesis
    by (simp add: main_iteration_def Let_def split: prod.splits option.splits)
qed

lemma main_iteration_send:
  assumes "CHR '' '' \<notin> set pid"
  shows "main_iteration env (''send '' @ pid @ '' '' @ msg) w =
           (SendMessage pid msg (print_line Print_Prompt w), Continue)"
  unfolding main_iteration_def SplitN_send [OF assms] by (simp add: Let_def numeral_2_eq_2)

text \<open>
  C10: the command line is split into at most three parts, so for a line \<^verbatim>\<open>send P M\<close>,
  where \<open>P\<close> is the text between the first and the second space, the parts are
  \<^verbatim>\<open>send\<close>, \<open>P\<close> and all of \<open>M\<close>, spaces included, and the iteration is the call
  \<^verbatim>\<open>SendMessage(P, M)\<close>.
\<close>

theorem send_passes_rest_of_line:
  "length (SplitN input '' '' 3) \<le> 3 \<and>
   (CHR '' '' \<notin> set pid \<longrightarrow>
      SplitN (''send '' @ pid @ '' '' @ msg) '' '' 3 = [''send'', pid, msg] \<and>
      main_iteration env (''send '' @ pid @ '' '' @ msg) w =
        (SendMessage pid msg (print_line Print_Prompt w), Continue))"
  using SplitN_length [of input "'' ''" 3] SplitN_send [of pid msg] main_iteration_send [of pid env msg w]
  by blast

text \<open>The line \<^verbatim>\<open>send xyz hello big world\<close>.\<close>

theorem send_passes_rest_of_line_witness:
  "SplitN ''send xyz hello big world'' '' '' 3 = [''send'', ''xyz'', ''hello big world''] \<and>
   main_iteration example_env ''send xyz hello big world'' (start_world example_client) =
     (SendMessage ''xyz'' ''hello big world'' (print_line Print_Prompt (start_world example_client)),
      Continue)"
  using send_passes_rest_of_line
    [where pid = "''xyz''" and msg = "''hello big world''" and env = example_env
       and w = "start_world example_client"]
  by simp

subsection \<open>Sending without an open channel\<close>

lemma SendMessage_no_channel:
  "dataChannels (client w) pid = None \<Longrightarrow>
     SendMessage pid msg w = w\<lparr>stdout := stdout w @ [Print_NoOpenDataChannel pid]\<rparr>"
  by (simp add: SendMessage_def print_line_def)

text \<open>
  C7: when no data channel is stored for \<open>P\<close> (whether or not a connection is),
  \<^verbatim>\<open>SendMessage(P, msg)\<close> prints the notice and changes nothing else: nothing is sent on
  any channel and the client is as before. The command \<^verbatim>\<open>send P msg\<close> therefore prints
  the prompt and the notice, and the loop goes on with the next line.
\<close>

theorem send_without_channel_only_prints:
  assumes "dataChannels (client w) pid = None"
  shows "SendMessage pid msg w = w\<lparr>stdout := stdout w @ [Print_NoOpenDataChannel pid]\<rparr> \<and>
     (CHR '' '' \<notin> set pid \<longrightarrow>
        main_iteration env (''send '' @ pid @ '' '' @ msg) w =
          (w\<lparr>stdout := stdout w @ [Print_Prompt, Print_NoOpenDataChannel pid]\<rparr>, Continue) \<and>
        main_loop env (Suc n) ((''send '' @ pid @ '' '' @ msg) # rest) w =
          main_loop env n rest (w\<lparr>stdout := stdout w @ [Print_Prompt, Print_NoOpenDataChannel pid]\<rparr>))"
proof -
  let ?w' = "w\<lparr>stdout := stdout w @ [Print_Prompt, Print_NoOpenDataChannel pid]\<rparr>"
  have notice: "SendMessage pid msg w = w\<lparr>stdout := stdout w @ [Print_NoOpenDataChannel pid]\<rparr>"
    using assms by (rule SendMessage_no_channel)
  have prompted: "SendMessage pid msg (print_line Print_Prompt w) = ?w'"
    using assms by (simp add: SendMessage_def print_line_def)
  have step: "main_iteration env line w = (?w', Continue)"
    if "line = ''send '' @ pid @ '' '' @ msg" and "CHR '' '' \<notin> set pid" for line
    unfolding that(1) main_iteration_send [OF that(2)] prompted ..
  have loop: "main_loop env (Suc n) (line # rest) w = main_loop env n rest ?w'"
    if "line = ''send '' @ pid @ '' '' @ msg" and "CHR '' '' \<notin> set pid" for line
    using step [OF that] by simp
  show ?thesis
    using notice step loop by blast
qed

text \<open>\<^verbatim>\<open>send xyz hello\<close> in a fresh client.\<close>

theorem send_without_channel_only_prints_witness:
  "main_iteration example_env ''send xyz hello'' (start_world example_client) =
     ((start_world example_client)
        \<lparr>stdout := stdout (start_world example_client) @ [Print_Prompt, Print_NoOpenDataChannel ''xyz'']\<rparr>,
      Continue) \<and>
   stdout (fst (main_loop example_env 2 [''send xyz hello'', ''exit''] (start_world example_client))) =
     [Print_Prompt, Print_NoOpenDataChannel ''xyz'', Print_Prompt] \<and>
   snd (main_loop example_env 2 [''send xyz hello'', ''exit''] (start_world example_client)) = Return"
proof -
  have none: "dataChannels (client (start_world example_client)) ''xyz'' = None"
    by (simp add: example_defs)
  have exit: "main_iteration env ''exit'' w = (print_line Print_Prompt w, Return)" for env w
    by (simp add: main_iteration_def Let_def numeral_3_eq_3)
  show ?thesis
    using send_without_channel_only_prints
      [OF none, where msg = "''hello''" and env = example_env and n = 1 and rest = "[''exit'']"]
    by (simp add: exit numeral_2_eq_2 print_line_def start_world_def)
qed

subsection \<open>The dispatch loop\<close>

lemma handleIncomingMessages_messages:
  "handleIncomingMessages env (map ReadMessage ms @ rest) w =
     handleIncomingMessages env rest (foldl (\<lambda>w m. dispatch env m w) w ms)"
  by (induction ms arbitrary: w) simp_all

lemma handleIncomingMessages_only_messages:
  "handleIncomingMessages env (map ReadMessage ms) w = (foldl (\<lambda>w m. dispatch env m w) w ms, Waiting)"
  using handleIncomingMessages_messages [of env ms "[]" w] by simp

lemma dispatch_registered_undecodable:
  "Type msg = ''registered'' \<Longrightarrow> Unmarshal_registered env (Payload msg) = (Some e, pid) \<Longrightarrow>
     dispatch env msg w =
       w\<lparr>logs := logs w @ [Log_ReceivedType ''registered'', Log_FullMessage msg,
                            Log_UnmarshalRegisteredError e]\<rparr>"
  by (simp add: dispatch_def log_line_def Let_def)

lemma dispatch_registered_ok:
  "Type msg = ''registered'' \<Longrightarrow> Unmarshal_registered env (Payload msg) = (None, pid) \<Longrightarrow> pid \<noteq> [] \<Longrightarrow>
     client (dispatch env msg w) = (client w)\<lparr>peerID := pid\<rparr>"
  by (simp add: dispatch_def Let_def)

text \<open>
  C2, as stated, fails: a read that fails, as it does when the bytes on the stream are
  not the JSON of a message, ends the loop. A \<^verbatim>\<open>registered\<close> envelope that follows is
  never read and the identifier stays empty, though the same envelope alone sets it.
\<close>

theorem undecodable_input_counterexample:
  \<open>handleIncomingMessages example_env
      [ReadError (OtherError ''invalid character''),
       ReadMessage \<lparr>Type = ''registered'', Payload = ''{"peerId":"abc"}''\<rparr>]
      (start_world example_client) =
     ((start_world example_client)\<lparr>logs := [Log_ReadError (OtherError ''invalid character'')]\<rparr>,
      Returned) \<and>
   peerID (client (fst (handleIncomingMessages example_env
      [ReadError (OtherError ''invalid character''),
       ReadMessage \<lparr>Type = ''registered'', Payload = ''{"peerId":"abc"}''\<rparr>]
      (start_world example_client)))) = [] \<and>
   peerID (client (fst (handleIncomingMessages example_env
      [ReadMessage \<lparr>Type = ''registered'', Payload = ''{"peerId":"abc"}''\<rparr>]
      (start_world example_client)))) = ''abc''\<close>
  by (simp add: dispatch_def log_line_def print_line_def example_defs Let_def)

text \<open>
  C2, amended: a \<^verbatim>\<open>registered\<close> envelope whose payload fails to decode is logged and
  dropped (only the log changes). No message that was read, whatever its payload, ends
  the loop: after any messages the loop is waiting for the next read, and what follows
  them is processed in the state they left; so a later well-formed \<^verbatim>\<open>registered\<close>
  envelope sets the identifier. But a read that fails (which includes bytes that are not
  the JSON of a message) is logged, with one line that tells an unexpected close from any
  other error, and ends the loop: the state is the one the messages before it left, with
  that line added, and nothing after the failed read is processed.
\<close>

theorem only_read_errors_end_the_loop:
  "(Type msg = ''registered'' \<and> Unmarshal_registered env (Payload msg) = (Some e, pid) \<longrightarrow>
      dispatch env msg w =
        w\<lparr>logs := logs w @ [Log_ReceivedType ''registered'', Log_FullMessage msg,
                             Log_UnmarshalRegisteredError e]\<rparr>) \<and>
   snd (handleIncomingMessages env (map ReadMessage ms) w) = Waiting \<and>
   handleIncomingMessages env (map ReadMessage ms @ rest) w =
     handleIncomingMessages env rest (fst (handleIncomingMessages env (map ReadMessage ms) w)) \<and>
   (Type reg = ''registered'' \<and> Unmarshal_registered env (Payload reg) = (None, pid') \<and> pid' \<noteq> [] \<longrightarrow>
      peerID (client (fst (handleIncomingMessages env (map ReadMessage ms @ [ReadMessage reg]) w))) = pid') \<and>
   snd (handleIncomingMessages env (map ReadMessage ms @ ReadError err # rest) w) = Returned \<and>
   handleIncomingMessages env (map ReadMessage ms @ ReadError err # rest) w =
     handleIncomingMessages env (map ReadMessage ms @ [ReadError err]) w \<and>
   handleIncomingMessages env (map ReadMessage ms @ ReadError err # rest) w =
     ((fst (handleIncomingMessages env (map ReadMessage ms) w))
        \<lparr>logs := logs (fst (handleIncomingMessages env (map ReadMessage ms) w)) @
           [if IsUnexpectedCloseError err [CloseGoingAway, CloseAbnormalClosure]
            then Log_UnexpectedClose err else Log_ReadError err]\<rparr>,
      Returned)"
proof -
  let ?w = "foldl (\<lambda>w m. dispatch env m w) w ms"
  have "peerID (client (fst (handleIncomingMessages env (map ReadMessage ms @ [ReadMessage reg]) w))) = pid'"
    if "Type reg = ''registered''" "Unmarshal_registered env (Payload reg) = (None, pid')" "pid' \<noteq> []"
    using dispatch_registered_ok [OF that, of ?w]
    by (simp add: handleIncomingMessages_messages)
  moreover have "snd (handleIncomingMessages env (map ReadMessage ms @ ReadError err # rest) w) = Returned"
    unfolding handleIncomingMessages_messages by simp
  moreover have "handleIncomingMessages env (map ReadMessage ms @ ReadError err # rest) w =
     handleIncomingMessages env (map ReadMessage ms @ [ReadError err]) w"
    unfolding handleIncomingMessages_messages by simp
  moreover have "handleIncomingMessages env (map ReadMessage ms @ rest) w =
     handleIncomingMessages env rest (fst (handleIncomingMessages env (map ReadMessage ms) w))"
    by (simp add: handleIncomingMessages_messages handleIncomingMessages_only_messages)
  moreover have "handleIncomingMessages env (map ReadMessage ms @ ReadError err # rest) w =
     ((fst (handleIncomingMessages env (map ReadMessage ms) w))
        \<lparr>logs := logs (fst (handleIncomingMessages env (map ReadMessage ms) w)) @
           [if IsUnexpectedCloseError err [CloseGoingAway, CloseAbnormalClosure]
            then Log_UnexpectedClose err else Log_ReadError err]\<rparr>,
      Returned)"
    by (simp add: handleIncomingMessages_messages handleIncomingMessages_only_messages log_line_def)
  ultimately show ?thesis
    using dispatch_registered_undecodable [of msg env e pid w]
    by (simp add: handleIncomingMessages_only_messages)
qed

text \<open>A \<^verbatim>\<open>registered\<close> envelope with an undecodable payload, then a well-formed one: the
  identifier is set and the loop is waiting. The same two envelopes, then a close with
  code 1000 and one more envelope: the loop has returned, the close is logged as
  unexpected after the six lines of the two envelopes, and the identifier is the one the
  two envelopes left.\<close>

theorem only_read_errors_end_the_loop_witness:
  \<open>peerID (client (fst (handleIncomingMessages example_env
      (map ReadMessage [\<lparr>Type = ''registered'', Payload = ''{"peerId":7}''\<rparr>] @
       [ReadMessage \<lparr>Type = ''registered'', Payload = ''{"peerId":"abc"}''\<rparr>])
      (start_world example_client)))) = ''abc'' \<and>
   snd (handleIncomingMessages example_env
      (map ReadMessage [\<lparr>Type = ''registered'', Payload = ''{"peerId":7}''\<rparr>])
      (start_world example_client)) = Waiting \<and>
   logs (dispatch example_env \<lparr>Type = ''registered'', Payload = ''{"peerId":7}''\<rparr>
           (start_world example_client)) =
     [Log_ReceivedType ''registered'',
      Log_FullMessage \<lparr>Type = ''registered'', Payload = ''{"peerId":7}''\<rparr>,
      Log_UnmarshalRegisteredError (OtherError ''invalid'')] \<and>
   snd (handleIncomingMessages example_env
      (map ReadMessage
         [\<lparr>Type = ''registered'', Payload = ''{"peerId":7}''\<rparr>,
          \<lparr>Type = ''registered'', Payload = ''{"peerId":"abc"}''\<rparr>] @
       ReadError (CloseError 1000 ''bye'') #
       [ReadMessage \<lparr>Type = ''registered'', Payload = ''{}''\<rparr>])
      (start_world example_client)) = Returned \<and>
   logs (fst (handleIncomingMessages example_env
      (map ReadMessage
         [\<lparr>Type = ''registered'', Payload = ''{"peerId":7}''\<rparr>,
          \<lparr>Type = ''registered'', Payload = ''{"peerId":"abc"}''\<rparr>] @
       ReadError (CloseError 1000 ''bye'') #
       [ReadMessage \<lparr>Type = ''registered'', Payload = ''{}''\<rparr>])
      (start_world example_client))) =
     [Log_ReceivedType ''registered'',
      Log_FullMessage \<lparr>Type = ''registered'', Payload = ''{"peerId":7}''\<rparr>,
      Log_UnmarshalRegisteredError (OtherError ''invalid''),
      Log_ReceivedType ''registered'',
      Log_FullMessage \<lparr>Type = ''registered'', Payload = ''{"peerId":"abc"}''\<rparr>,
      Log_Registered ''abc'',
      Log_UnexpectedClose (CloseError 1000 ''bye'')]\<close>
proof -
  have reg: \<open>Unmarshal_registered example_env ''{"peerId":"abc"}'' = (None, ''abc'')\<close>
    by (simp add: example_env_def)
  have bad: \<open>Unmarshal_registered example_env ''{"peerId":7}'' = (Some (OtherError ''invalid''), [])\<close>
    by (simp add: example_env_def)
  show ?thesis
    using only_read_errors_end_the_loop
      [where env = example_env and w = "start_world example_client"
         and ms = \<open>[\<lparr>Type = ''registered'', Payload = ''{"peerId":7}''\<rparr>]\<close>
         and reg = \<open>\<lparr>Type = ''registered'', Payload = ''{"peerId":"abc"}''\<rparr>\<close>
         and pid' = "''abc''"
         and msg = \<open>\<lparr>Type = ''registered'', Payload = ''{"peerId":7}''\<rparr>\<close>
         and e = "OtherError ''invalid''" and pid = "[]"]
      only_read_errors_end_the_loop
      [where env = example_env and w = "start_world example_client"
         and ms = \<open>[\<lparr>Type = ''registered'', Payload = ''{"peerId":7}''\<rparr>,
                    \<lparr>Type = ''registered'', Payload = ''{"peerId":"abc"}''\<rparr>]\<close>
         and err = "CloseError 1000 ''bye''"
         and rest = \<open>[ReadMessage \<lparr>Type = ''registered'', Payload = ''{}''\<rparr>]\<close>]
    by (simp add: reg bad dispatch_def log_line_def print_line_def start_world_def Let_def
        CloseGoingAway_def CloseAbnormalClosure_def)
qed

subsection \<open>Offers: the session is stored, the answer is not sent\<close>

lemma dispatch_offer:
  assumes "webrtc_succeeds env" and "relay_connection_works env" and "Type m = ''offer''"
    and "\<forall>w pc desc src. CreateAnswer_result env w pc = Inr desc \<longrightarrow>
           Marshal_result env \<lparr>Type = ''answer'', Payload = answer_payload src (SDP desc)\<rparr> \<noteq> None"
  shows "written (dispatch env m w) = written w @ [Empty_frame] \<and>
         client (dispatch env m w) =
           (client w)\<lparr>peerConns :=
              (peerConns (client w))(snd (snd (Unmarshal_offer env (Payload m))) \<mapsto> length (pcs w))\<rparr> \<and>
         length (pcs (dispatch env m w)) = Suc (length (pcs w))"
proof -
  obtain err offer src where u: "Unmarshal_offer env (Payload m) = (err, offer, src)"
    by (cases "Unmarshal_offer env (Payload m)") auto
  let ?w0 = "log_line (Log_FullMessage m) (log_line (Log_ReceivedType (Type m)) w)"
  have d: "dispatch env m w = handleOffer env offer src ?w0"
    using assms(3) u by (simp add: dispatch_def Let_def)
  from handleOffer_succeeds [OF assms(1,2), of ?w0 offer src] obtain answer w3 where
    a: "CreateAnswer_result env w3 (length (pcs ?w0)) = Inr answer"
    and c: "client (handleOffer env offer src ?w0) =
              (client ?w0)\<lparr>peerConns := (peerConns (client ?w0))(src \<mapsto> length (pcs ?w0))\<rparr>"
    and p: "pcs (handleOffer env offer src ?w0) =
              pcs ?w0 @ [\<lparr>calls = [Call_SetRemoteDescription offer, Call_CreateAnswer,
                                     Call_SetLocalDescription answer],
                            onDataChannel = Some src\<rparr>]"
    and wr: "written (handleOffer env offer src ?w0) =
        written ?w0 @
        [case Marshal_result env \<lparr>Type = ''answer'', Payload = answer_payload src (SDP answer)\<rparr> of
           None \<Rightarrow> Envelope \<lparr>Type = ''answer'', Payload = answer_payload src (SDP answer)\<rparr>
         | Some e \<Rightarrow> Empty_frame]"
    by blast
  from a assms(4) obtain e where
    "Marshal_result env \<lparr>Type = ''answer'', Payload = answer_payload src (SDP answer)\<rparr> = Some e"
    by blast
  with wr have "written (handleOffer env offer src ?w0) = written w @ [Empty_frame]"
    by simp
  with c p show ?thesis
    by (simp add: d u)
qed

lemma offers_leave_other_peers:
  assumes "webrtc_succeeds env" and "relay_connection_works env"
    and "\<forall>w pc desc src. CreateAnswer_result env w pc = Inr desc \<longrightarrow>
           Marshal_result env \<lparr>Type = ''answer'', Payload = answer_payload src (SDP desc)\<rparr> \<noteq> None"
  shows "\<forall>m \<in> set ms. Type m = ''offer'' \<Longrightarrow>
         p \<notin> set (map (\<lambda>m. snd (snd (Unmarshal_offer env (Payload m)))) ms) \<Longrightarrow>
         peerConns (client (fst (handleIncomingMessages env (map ReadMessage ms) w))) p =
           peerConns (client w) p"
proof (induction ms arbitrary: w)
  case Nil
  then show ?case by simp
next
  case (Cons m ms)
  from Cons.prems have m: "Type m = ''offer''" and ms: "\<forall>m \<in> set ms. Type m = ''offer''"
    and p: "p \<noteq> snd (snd (Unmarshal_offer env (Payload m)))"
    and ps: "p \<notin> set (map (\<lambda>m. snd (snd (Unmarshal_offer env (Payload m)))) ms)"
    by auto
  from dispatch_offer [OF assms(1,2) m assms(3), of w] p
  have "peerConns (client (dispatch env m w)) p = peerConns (client w) p"
    by simp
  with Cons.IH [OF ms ps, of "dispatch env m w"] show ?case
    by simp
qed

text \<open>
  C4 does not hold of the code. The answer's payload is built by putting the SDP text of
  the answer between the braces without quotes, and an envelope with such a payload
  cannot be marshalled when that text is not JSON, which SDP text never is. So with a
  WebRTC library whose calls succeed and a relay connection that takes every frame, a
  sequence of offers from distinct sources stores a fresh session for every source, as
  the claim says, but sends no \<^verbatim>\<open>answer\<close> envelope at all: what goes to the relay is one
  empty frame per offer, and the marshalling error is not read.
\<close>

theorem offers_stored_but_no_answer_sent:
  assumes "webrtc_succeeds env" and "relay_connection_works env"
    and "\<forall>w pc desc src. CreateAnswer_result env w pc = Inr desc \<longrightarrow>
           Marshal_result env \<lparr>Type = ''answer'', Payload = answer_payload src (SDP desc)\<rparr> \<noteq> None"
    and "\<forall>m \<in> set ms. Type m = ''offer''"
    and "distinct (map (\<lambda>m. snd (snd (Unmarshal_offer env (Payload m)))) ms)"
  shows "written (fst (handleIncomingMessages env (map ReadMessage ms) w)) =
           written w @ replicate (length ms) Empty_frame \<and>
         (\<forall>i < length ms.
            peerConns (client (fst (handleIncomingMessages env (map ReadMessage ms) w)))
              (snd (snd (Unmarshal_offer env (Payload (ms ! i))))) = Some (length (pcs w) + i)) \<and>
         snd (handleIncomingMessages env (map ReadMessage ms) w) = Waiting"
  using assms(4,5)
proof (induction ms arbitrary: w)
  case Nil
  then show ?case by simp
next
  case (Cons m ms)
  let ?src = "\<lambda>m. snd (snd (Unmarshal_offer env (Payload m)))"
  let ?w1 = "dispatch env m w"
  let ?end = "fst (handleIncomingMessages env (map ReadMessage ms) ?w1)"
  from Cons.prems have m: "Type m = ''offer''" and ms: "\<forall>m \<in> set ms. Type m = ''offer''"
    and fresh: "?src m \<notin> set (map ?src ms)" and dist: "distinct (map ?src ms)"
    by simp_all
  from dispatch_offer [OF assms(1,2) m assms(3), of w] have
    wr: "written ?w1 = written w @ [Empty_frame]"
    and st: "peerConns (client ?w1) (?src m) = Some (length (pcs w))"
    and len: "length (pcs ?w1) = Suc (length (pcs w))"
    by simp_all
  from Cons.IH [OF ms dist, of ?w1] have
    wrs: "written ?end = written ?w1 @ replicate (length ms) Empty_frame"
    and sts: "\<forall>i < length ms. peerConns (client ?end) (?src (ms ! i)) = Some (length (pcs ?w1) + i)"
    and run: "snd (handleIncomingMessages env (map ReadMessage ms) ?w1) = Waiting"
    by blast+
  have kept: "peerConns (client ?end) (?src m) = Some (length (pcs w))"
    using offers_leave_other_peers [OF assms(1,2,3) ms fresh, of ?w1] st by simp
  have stored: "peerConns (client ?end) (?src ((m # ms) ! i)) = Some (length (pcs w) + i)"
    if "i < length (m # ms)" for i
  proof (cases i)
    case 0
    then show ?thesis using kept by simp
  next
    case (Suc j)
    with that sts len show ?thesis by simp
  qed
  have sent: "written ?end = written w @ replicate (length (m # ms)) Empty_frame"
    using wrs wr by (simp add: replicate_append_same)
  show ?case
    using sent stored run by simp
qed

text \<open>Offers from \<^verbatim>\<open>p1\<close> and \<^verbatim>\<open>p2\<close> arrive at a fresh client: connections 0 and 1 are
  stored for them, and two empty frames are what the relay gets. The payload that could
  not be marshalled for \<^verbatim>\<open>p1\<close> is the text shown.\<close>

theorem offers_stored_but_no_answer_sent_witness:
  \<open>written (fst (handleIncomingMessages example_env
      (map ReadMessage
         [\<lparr>Type = ''offer'', Payload = ''{"offer":{"type":"offer","sdp":"o1"},"source":"p1"}''\<rparr>,
          \<lparr>Type = ''offer'', Payload = ''{"offer":{"type":"offer","sdp":"o2"},"source":"p2"}''\<rparr>])
      (start_world example_client))) = [Empty_frame, Empty_frame] \<and>
   peerConns (client (fst (handleIncomingMessages example_env
      (map ReadMessage
         [\<lparr>Type = ''offer'', Payload = ''{"offer":{"type":"offer","sdp":"o1"},"source":"p1"}''\<rparr>,
          \<lparr>Type = ''offer'', Payload = ''{"offer":{"type":"offer","sdp":"o2"},"source":"p2"}''\<rparr>])
      (start_world example_client)))) ''p1'' = Some 0 \<and>
   peerConns (client (fst (handleIncomingMessages example_env
      (map ReadMessage
         [\<lparr>Type = ''offer'', Payload = ''{"offer":{"type":"offer","sdp":"o1"},"source":"p1"}''\<rparr>,
          \<lparr>Type = ''offer'', Payload = ''{"offer":{"type":"offer","sdp":"o2"},"source":"p2"}''\<rparr>])
      (start_world example_client)))) ''p2'' = Some 1 \<and>
   answer_payload ''p1'' ''v=0 answer'' = ''{"target":"p1","answer":v=0 answer}''\<close>
proof -
  have works: "relay_connection_works example_env"
    by (simp add: relay_connection_works_def example_env_def)
  have fails: "\<forall>w pc desc src. CreateAnswer_result example_env w pc = Inr desc \<longrightarrow>
           Marshal_result example_env \<lparr>Type = ''answer'', Payload = answer_payload src (SDP desc)\<rparr> \<noteq> None"
    by (simp add: example_env_def answer_payload_def)
  show ?thesis
    using offers_stored_but_no_answer_sent
      [OF example_env_succeeds works fails,
       where ms = \<open>[\<lparr>Type = ''offer'', Payload = ''{"offer":{"type":"offer","sdp":"o1"},"source":"p1"}''\<rparr>,
                    \<lparr>Type = ''offer'', Payload = ''{"offer":{"type":"offer","sdp":"o2"},"source":"p2"}''\<rparr>]\<close>
         and w = "start_world example_client"]
    by (simp add: dispatch_def handleOffer_def collaborator_defs WriteJSON_def example_defs
        answer_payload_def Let_def)
qed

subsection \<open>Register, then connect: no offer is sent\<close>

lemma Register_effect:
  assumes "relay_connection_works env"
    and "Marshal_result env \<lparr>Type = ''register'', Payload = []\<rparr> = None"
  shows "written (Register env w) = written w @ [Envelope \<lparr>Type = ''register'', Payload = []\<rparr>] \<and>
         client (Register env w) = client w \<and> pcs (Register env w) = pcs w \<and>
         dcs (Register env w) = dcs w \<and> stdout (Register env w) = stdout w"
  using assms by (simp add: Register_def WriteJSON_def log_line_def relay_connection_works_def Let_def)

lemma main_iteration_register:
  "main_iteration env ''register'' w = (Register env (print_line Print_Prompt w), Continue)"
  by (simp add: main_iteration_def Let_def numeral_3_eq_3)

lemma main_iteration_connect_xyz:
  "main_iteration env ''connect xyz'' w =
     (case ConnectToPeer env ''xyz'' (print_line Print_Prompt w) of
        (w1, Some e) \<Rightarrow> (print_line (Print_ConnectError e) w1, Continue)
      | (w1, None) \<Rightarrow> (w1, Continue))"
  by (simp add: main_iteration_def Let_def numeral_3_eq_3)

lemma dispatch_registered_effect:
  "Type msg = ''registered'' \<Longrightarrow> Unmarshal_registered env (Payload msg) = (None, pid) \<Longrightarrow> pid \<noteq> [] \<Longrightarrow>
     written (dispatch env msg w) = written w \<and> pcs (dispatch env msg w) = pcs w \<and>
     dcs (dispatch env msg w) = dcs w \<and> stdout (dispatch env msg w) = stdout w @ [Print_Registered pid] \<and>
     client (dispatch env msg w) = (client w)\<lparr>peerID := pid\<rparr>"
  by (simp add: dispatch_def print_line_def Let_def)

text \<open>
  C5 does not hold of the code. The offer's payload is built by putting the SDP text of
  the offer between the braces without quotes, and an envelope with such a payload
  cannot be marshalled when that text is not JSON, which SDP text never is. So in a
  program that has just entered its command loop, with a WebRTC library whose calls
  succeed and a relay connection that takes every frame: after \<^verbatim>\<open>register\<close>, a
  \<^verbatim>\<open>registered\<close> envelope that decodes to \<^verbatim>\<open>abc\<close>, and \<^verbatim>\<open>connect xyz\<close>, the identifier
  is \<^verbatim>\<open>abc\<close> and a session for \<^verbatim>\<open>xyz\<close> is stored, but what has gone to the relay is the
  \<^verbatim>\<open>register\<close> envelope and an empty frame: no \<^verbatim>\<open>offer\<close> envelope. The marshalling
  error is not read, and nothing about it is printed.
\<close>

theorem register_then_connect_sends_no_offer:
  assumes "webrtc_succeeds env" and "relay_connection_works env"
    and "Marshal_result env \<lparr>Type = ''register'', Payload = []\<rparr> = None"
    and "\<forall>w pc desc. CreateOffer_result env w pc = Inr desc \<longrightarrow>
           Marshal_result env \<lparr>Type = ''offer'', Payload = offer_payload ''xyz'' (SDP desc)\<rparr> \<noteq> None"
    and "NewClient env url = Inr c"
    and "Unmarshal_registered env p = (None, ''abc'')"
    and "w1 = fst (main_iteration env ''register'' (main_enters_loop c))"
    and "w2 = fst (handleIncomingMessages env [ReadMessage \<lparr>Type = ''registered'', Payload = p\<rparr>] w1)"
    and "w3 = fst (main_iteration env ''connect xyz'' w2)"
  shows "peerID (client w2) = ''abc'' \<and>
         written w3 = [Envelope \<lparr>Type = ''register'', Payload = []\<rparr>, Empty_frame] \<and>
         peerConns (client w3) ''xyz'' = Some 0 \<and>
         stdout w3 = [Print_Banner, Print_Commands, Print_Prompt, Print_Registered ''abc'', Print_Prompt]"
proof -
  let ?reg = "\<lparr>Type = ''registered'', Payload = p\<rparr>"
  let ?w0 = "print_line Print_Prompt (main_enters_loop c)"
  have w1: "w1 = Register env ?w0"
    by (simp add: assms(7) main_iteration_register)
  from Register_effect [OF assms(2,3), of ?w0] have
    w1_written: "written w1 = [Envelope \<lparr>Type = ''register'', Payload = []\<rparr>]"
    and w1_pcs: "pcs w1 = []"
    and w1_stdout: "stdout w1 = [Print_Banner, Print_Commands, Print_Prompt]"
    by (simp_all add: w1 main_enters_loop_def start_world_def print_line_def)
  have w2: "w2 = dispatch env ?reg w1"
    by (simp add: assms(8))
  from dispatch_registered_effect [of ?reg env "''abc''" w1] assms(6) have
    id: "peerID (client w2) = ''abc''"
    and w2_written: "written w2 = written w1"
    and w2_pcs: "pcs w2 = pcs w1"
    and w2_stdout: "stdout w2 = stdout w1 @ [Print_Registered ''abc'']"
    by (simp_all add: w2)
  let ?w2' = "print_line Print_Prompt w2"
  obtain w' where c: "ConnectToPeer env ''xyz'' ?w2' = (w', None)"
    using ConnectToPeer_succeeds [OF assms(1), of "''xyz''" ?w2']
    by (cases "ConnectToPeer env ''xyz'' ?w2'") auto
  then have w3: "w3 = w'"
    by (simp add: assms(9) main_iteration_connect_xyz)
  from ConnectToPeer_success [OF c] have
    stored: "peerConns (client w') ''xyz'' = Some (length (pcs ?w2'))"
    and out: "stdout w' = stdout ?w2'"
    by auto
  from ConnectToPeer_sends [OF assms(2) c] obtain offer wx where
    o: "CreateOffer_result env wx (length (pcs ?w2')) = Inr offer"
    and wr: "written w' =
         written ?w2' @
         [case Marshal_result env \<lparr>Type = ''offer'', Payload = offer_payload ''xyz'' (SDP offer)\<rparr> of
            None \<Rightarrow> Envelope \<lparr>Type = ''offer'', Payload = offer_payload ''xyz'' (SDP offer)\<rparr>
          | Some e \<Rightarrow> Empty_frame]"
    by blast
  from o assms(4) obtain e where
    "Marshal_result env \<lparr>Type = ''offer'', Payload = offer_payload ''xyz'' (SDP offer)\<rparr> = Some e"
    by blast
  with wr have sent: "written w3 = [Envelope \<lparr>Type = ''register'', Payload = []\<rparr>, Empty_frame]"
    by (simp add: w3 w2_written w1_written)
  have session: "peerConns (client w3) ''xyz'' = Some 0"
    using stored by (simp add: w3 w2_pcs w1_pcs)
  have printed: "stdout w3 = [Print_Banner, Print_Commands, Print_Prompt, Print_Registered ''abc'',
                              Print_Prompt]"
    using out by (simp add: w3 w2_stdout w1_stdout print_line_def)
  show ?thesis
    using id sent session printed by simp
qed

text \<open>The scenario with the example collaborators; the payload that could not be
  marshalled is the text shown.\<close>

theorem register_then_connect_sends_no_offer_witness:
  \<open>written (fst (main_iteration example_env ''connect xyz''
      (fst (handleIncomingMessages example_env
         [ReadMessage \<lparr>Type = ''registered'', Payload = ''{"peerId":"abc"}''\<rparr>]
         (fst (main_iteration example_env ''register'' (main_enters_loop example_client))))))) =
     [Envelope \<lparr>Type = ''register'', Payload = []\<rparr>, Empty_frame] \<and>
   peerConns (client (fst (main_iteration example_env ''connect xyz''
      (fst (handleIncomingMessages example_env
         [ReadMessage \<lparr>Type = ''registered'', Payload = ''{"peerId":"abc"}''\<rparr>]
         (fst (main_iteration example_env ''register'' (main_enters_loop example_client)))))))) ''xyz'' =
     Some 0 \<and>
   offer_payload ''xyz'' ''v=0 offer'' = ''{"target":"xyz","offer":v=0 offer}''\<close>
proof -
  have works: "relay_connection_works example_env"
    by (simp add: relay_connection_works_def example_env_def)
  have reg: "Marshal_result example_env \<lparr>Type = ''register'', Payload = []\<rparr> = None"
    by (simp add: example_env_def)
  have fails: "\<forall>w pc desc. CreateOffer_result example_env w pc = Inr desc \<longrightarrow>
           Marshal_result example_env \<lparr>Type = ''offer'', Payload = offer_payload ''xyz'' (SDP desc)\<rparr> \<noteq> None"
    by (simp add: example_env_def offer_payload_def)
  have new: "NewClient example_env ''ws://localhost:8080/ws'' = Inr example_client"
    by (simp add: NewClient_def example_env_def example_client_def)
  have dec: \<open>Unmarshal_registered example_env ''{"peerId":"abc"}'' = (None, ''abc'')\<close>
    by (simp add: example_env_def)
  show ?thesis
    using register_then_connect_sends_no_offer
      [OF example_env_succeeds works reg fails new dec refl refl refl]
    by (simp add: offer_payload_def)
qed

subsection \<open>From connect to an open channel\<close>

text \<open>
  C6: after a \<^verbatim>\<open>connect\<close> to \<open>P\<close> that succeeded, an \<^verbatim>\<open>answer\<close> envelope whose source is
  \<open>P\<close> is applied as remote description to the connection made for \<open>P\<close>; when the data
  channel made by that \<^verbatim>\<open>connect\<close> is then reported open, the channel is stored for \<open>P\<close>,
  with nothing sent on it yet; and a following \<^verbatim>\<open>send\<close> to \<open>P\<close> calls \<^verbatim>\<open>SendText\<close> on
  that channel once, with exactly the message, touches no other channel, leaves the
  client alone, and prints the confirmation.
\<close>

theorem connect_answer_open_send:
  assumes "ConnectToPeer env pid w = (w1, None)"
    and "Type m = ''answer''"
    and "Unmarshal_answer env (Payload m) = (err, answer, pid)"
    and "w2 = fst (handleIncomingMessages env [ReadMessage m] w1)"
    and "w3 = DataChannel_opens (length (dcs w)) w2"
    and "w4 = SendMessage pid msg w3"
  shows "peerConns (client w1) pid = Some (length (pcs w)) \<and>
         calls (pcs w2 ! length (pcs w)) =
           calls (pcs w1 ! length (pcs w)) @ [Call_SetRemoteDescription answer] \<and>
         dataChannels (client w3) pid = Some (length (dcs w)) \<and>
         sentText (dcs w3 ! length (dcs w)) = [] \<and>
         dcs w4 = (dcs w3)[length (dcs w) := (dcs w3 ! length (dcs w))\<lparr>sentText := [msg]\<rparr>] \<and>
         client w4 = client w3 \<and>
         stdout w4 = stdout w3 @ [Print_MessageSent pid msg]"
proof -
  let ?pc = "length (pcs w)" and ?dc = "length (dcs w)"
  from ConnectToPeer_success [OF assms(1)] obtain offer where
    cl: "client w1 = (client w)\<lparr>peerConns := (peerConns (client w))(pid \<mapsto> ?pc)\<rparr>"
    and pcs1: "pcs w1 = pcs w @ [\<lparr>calls = [Call_CreateDataChannel ''data'', Call_CreateOffer,
                                   Call_SetLocalDescription offer], onDataChannel = None\<rparr>]"
    and dcs1: "dcs w1 = dcs w @ [\<lparr>dcLabel = ''data'', onOpen = Some (?dc, pid),
                          onMessage = Some pid, sentText = []\<rparr>]"
    by blast
  let ?w0 = "log_line (Log_FullMessage m) (log_line (Log_ReceivedType (Type m)) w1)"
  have w2: "w2 = pc_called ?pc (Call_SetRemoteDescription answer) ?w0"
    using assms(2,3) cl
    by (simp add: assms(4) dispatch_def handleAnswer_def SetRemoteDescription_def Let_def)
  have stored: "peerConns (client w1) pid = Some ?pc"
    by (simp add: cl)
  have applied: "calls (pcs w2 ! ?pc) = calls (pcs w1 ! ?pc) @ [Call_SetRemoteDescription answer]"
    by (simp add: w2 pc_called_def pcs1)
  have dcs2: "dcs w2 = dcs w1" and cl2: "client w2 = client w1"
    by (simp_all add: w2)
  have w3: "w3 = (print_line (Print_DataChannelOpened pid) w2)
                   \<lparr>client := (client w2)\<lparr>dataChannels := (dataChannels (client w2))(pid \<mapsto> ?dc)\<rparr>\<rparr>"
    by (simp add: assms(5) DataChannel_opens_def dcs2 dcs1 Let_def)
  have opened: "dataChannels (client w3) pid = Some ?dc"
    by (simp add: w3)
  have dcs3: "dcs w3 = dcs w1"
    by (simp add: w3 dcs2)
  have fresh: "sentText (dcs w3 ! ?dc) = []"
    by (simp add: dcs3 dcs1)
  have w4: "w4 = print_line (Print_MessageSent pid msg) (SendText ?dc msg w3)"
    using opened by (simp add: assms(6) SendMessage_def)
  have sent: "dcs w4 = (dcs w3)[?dc := (dcs w3 ! ?dc)\<lparr>sentText := [msg]\<rparr>]"
    using fresh by (simp add: w4 SendText_def)
  have rest: "client w4 = client w3 \<and> stdout w4 = stdout w3 @ [Print_MessageSent pid msg]"
    by (simp add: w4 SendText_def print_line_def)
  show ?thesis
    using stored applied opened fresh sent rest by blast
qed

text \<open>\<^verbatim>\<open>connect xyz\<close>, the answer from \<^verbatim>\<open>xyz\<close>, the channel opening, and
  \<^verbatim>\<open>send xyz hello\<close>, in a fresh client: channel 0 is stored for \<^verbatim>\<open>xyz\<close> and has been
  sent exactly \<^verbatim>\<open>hello\<close>.\<close>

theorem connect_answer_open_send_witness:
  \<open>dataChannels (client (DataChannel_opens 0
      (fst (handleIncomingMessages example_env
         [ReadMessage \<lparr>Type = ''answer'', Payload = ''{"answer":{"type":"answer","sdp":"a1"},"source":"xyz"}''\<rparr>]
         (fst (ConnectToPeer example_env ''xyz'' (start_world example_client))))))) ''xyz'' = Some 0 \<and>
   map sentText (dcs (SendMessage ''xyz'' ''hello'' (DataChannel_opens 0
      (fst (handleIncomingMessages example_env
         [ReadMessage \<lparr>Type = ''answer'', Payload = ''{"answer":{"type":"answer","sdp":"a1"},"source":"xyz"}''\<rparr>]
         (fst (ConnectToPeer example_env ''xyz'' (start_world example_client)))))))) = [[''hello'']]\<close>
proof -
  have c: "ConnectToPeer example_env ''xyz'' (start_world example_client) =
             (fst (ConnectToPeer example_env ''xyz'' (start_world example_client)), None)"
    using ConnectToPeer_succeeds [OF example_env_succeeds, of "''xyz''" "start_world example_client"]
    by (cases "ConnectToPeer example_env ''xyz'' (start_world example_client)") simp
  have u: \<open>Unmarshal_answer example_env
             (Payload \<lparr>Type = ''answer'', Payload = ''{"answer":{"type":"answer","sdp":"a1"},"source":"xyz"}''\<rparr>) =
           (None, \<lparr>sdType = SDPTypeAnswer, SDP = ''a1''\<rparr>, ''xyz'')\<close>
    by (simp add: example_env_def)
  show ?thesis
    using connect_answer_open_send [OF c _ u refl refl refl, where msg = "''hello''"]
    by (simp add: ConnectToPeer_def dispatch_def handleAnswer_def DataChannel_opens_def
        SendMessage_def collaborator_defs example_defs Let_def)
qed

end
